theory Spec2Isabelle
  imports Complex_Main "HOL-Library.Word" "HOL-Library.Signed_Division"
begin

section \<open>stream-rt: a shallow embedding of examples/stream-rt/stream-rt.cpp\<close>

text \<open>
  The program reads audio from standard input, hands fixed-size buffers to the whisper
  engine and prints the segments the engine returns. The engine, the C++ standard
  library and the constant \<open>WHISPER_SAMPLE_RATE\<close> live outside the file; they are
  parameters of the model (the record \<open>env\<close>).
\<close>

subsection \<open>Basic types\<close>

type_synonym byte = "8 word"

text \<open>A C \<open>float\<close> held in an audio buffer is its IEEE-754 binary32 bit pattern.\<close>

type_synonym f32 = "32 word"

text \<open>
  The float-valued options (\<open>vad_thold\<close>, \<open>freq_thold\<close>, \<open>temperature_inc\<close>) are
  finite values; they are modelled as rationals.
\<close>

type_synonym cfloat = rat

datatype exn =
    Invalid_argument string
  | Out_of_range string
  | Length_error
  | Runtime_error string

text \<open>
  How the process ends: \<open>Exit c\<close> is a return from \<open>main\<close> or a call of \<open>exit\<close>,
  \<open>Uncaught e\<close> is an exception that reaches \<open>std::terminate\<close> (there is no
  \<open>try\<close> in the program), \<open>Undefined\<close> is undefined behaviour.
\<close>

datatype outcome = Exit int | Uncaught exn | Undefined

subsection \<open>Double-precision arithmetic of the buffer sizes\<close>

text \<open>
  \<open>(1e-3 * params.step_ms) * WHISPER_SAMPLE_RATE\<close> is evaluated in IEEE-754 binary64
  with round-to-nearest-even, each product rounded to a double (as on x86-64 and
  AArch64), and then truncated by the conversion to an integer type.
  A finite double is the pair \<open>(m, e)\<close> standing for \<open>m * 2 ^ e\<close>; every product is
  rounded to 53 significant bits. Exponent overflow and subnormals do not arise for
  32-bit operands and are not modelled.
\<close>

type_synonym dbl = "int \<times> int"

text \<open>The number of bits of a positive integer.\<close>

function bitlen :: "int \<Rightarrow> nat" where
  "bitlen n = (if n \<le> 0 then 0 else Suc (bitlen (n div 2)))"
  by pat_completeness auto
termination
  by (relation "measure nat") auto

declare bitlen.simps [simp del]

definition dbl_round :: "int \<Rightarrow> int \<Rightarrow> dbl" where
  "dbl_round m e =
     (let a = \<bar>m\<bar>;
          k = bitlen a - 53
      in if k = 0 then (m, e)
         else
           let q = a div 2 ^ k;
               r = a mod 2 ^ k;
               h = 2 ^ (k - 1);
               q' = (if h < r \<or> (r = h \<and> odd q) then q + 1 else q)
           in (sgn m * q', e + int k))"

definition dbl_of_int :: "int \<Rightarrow> dbl" where
  "dbl_of_int v = (v, 0)"

definition dbl_mul :: "dbl \<Rightarrow> dbl \<Rightarrow> dbl" where
  "dbl_mul x y = dbl_round (fst x * fst y) (snd x + snd y)"

text \<open>The literal \<open>1e-3\<close>: the double nearest to 1/1000 is \<open>1152921504606847 / 2 ^ 60\<close>.\<close>

definition dbl_1e_3 :: dbl where
  "dbl_1e_3 = (1152921504606847, - 60)"

text \<open>Conversion of a double to an integer type discards the fraction.\<close>

definition dbl_trunc :: "dbl \<Rightarrow> int" where
  "dbl_trunc x =
     (if 0 \<le> snd x then fst x * 2 ^ nat (snd x)
      else sgn (fst x) * (\<bar>fst x\<bar> div 2 ^ nat (- snd x)))"

text \<open>
  \<open>const int n_samples_step = (1e-3 * params.step_ms) * WHISPER_SAMPLE_RATE;\<close>
  The conversion is undefined when the value does not fit an \<open>int\<close> (\<open>None\<close>).
\<close>

definition n_samples_step :: "int \<Rightarrow> int \<Rightarrow> int option" where
  "n_samples_step rate step =
     (let v = dbl_trunc (dbl_mul (dbl_mul dbl_1e_3 (dbl_of_int step)) (dbl_of_int rate))
      in if - (2 ^ 31) \<le> v \<and> v < 2 ^ 31 then Some v else None)"

text \<open>
  \<open>std::vector<int16_t> buffer16((1e-3 * 10000) * WHISPER_SAMPLE_RATE);\<close>
  the number of 16-bit samples of one wav-mode buffer.
\<close>

definition wav_buffer_len :: "int \<Rightarrow> nat" where
  "wav_buffer_len rate =
     nat (dbl_trunc (dbl_mul (dbl_mul dbl_1e_3 (dbl_of_int 10000)) (dbl_of_int rate)))"

subsection \<open>Formatting: \<open>snprintf\<close> with \<open>%0wd\<close>, and \<open>to_timestamp\<close>\<close>

definition digit_char :: "int \<Rightarrow> char" where
  "digit_char d = char_of (48 + d)"

text \<open>The decimal digits of a number that is not negative.\<close>

function digits10 :: "int \<Rightarrow> string" where
  "digits10 n = (if n < 10 then [digit_char n] else digits10 (n div 10) @ [digit_char (n mod 10)])"
  by pat_completeness auto
termination
  by (relation "measure nat") auto

declare digits10.simps [simp del]

text \<open>
  \<open>%0wd\<close>: the sign, then zeros up to the field width \<open>w\<close> (the sign counts), then the
  decimal digits. A value wider than the field is printed whole.
\<close>

definition fmt_0d :: "nat \<Rightarrow> int \<Rightarrow> string" where
  "fmt_0d w v =
     (let sg = (if v < 0 then ''-'' else '''');
          ds = digits10 \<bar>v\<bar>
      in sg @ replicate (w - length sg - length ds) (CHR ''0'') @ ds)"

text \<open>The cast \<open>(int)\<close> of an \<open>int64_t\<close> keeps the low 32 bits, read as signed.\<close>

definition int_cast :: "int \<Rightarrow> int" where
  "int_cast v = signed_take_bit 31 v"

text \<open>
  \<open>to_timestamp\<close> on an \<open>int64_t\<close> argument. C++ division truncates towards zero
  (\<open>sdiv\<close>); no intermediate value leaves the 64-bit range, since \<open>\<bar>sec * 100\<bar> \<le> \<bar>t\<bar>\<close>.
  \<open>snprintf\<close> writes at most 31 characters into \<open>buf[32]\<close>.
\<close>

definition to_timestamp :: "int \<Rightarrow> string" where
  "to_timestamp t =
     (let sec = t sdiv 100;
          msec = t - sec * 100;
          min = sec sdiv 60;
          sec = sec - min * 60
      in take 31 (fmt_0d 2 (int_cast min) @ '':'' @ fmt_0d 2 (int_cast sec) @ ''.''
                  @ fmt_0d 3 (int_cast msec)))"

subsection \<open>Parameters and the command line\<close>

record whisper_params =
  n_threads :: int
  step_ms :: int
  length_ms :: int
  keep_ms :: int
  capture_id :: int
  max_tokens :: int
  audio_ctx :: int
  vad_thold :: cfloat
  freq_thold :: cfloat
  speed_up :: bool
  from_wav_file :: bool
  translate :: bool
  no_fallback :: bool
  print_special :: bool
  no_context :: bool
  no_timestamps :: bool
  tinydiarize :: bool
  save_audio :: bool
  use_gpu :: bool
  language :: string
  model :: string
  fname_out :: string

text \<open>
  The member initialisers of \<open>struct whisper_params\<close>. \<open>hc\<close> is the value of
  \<open>std::thread::hardware_concurrency()\<close>; \<open>0.6f\<close> is the float \<open>5033165 / 2 ^ 23\<close>.
\<close>

definition default_params :: "int \<Rightarrow> whisper_params" where
  "default_params hc =
     \<lparr> n_threads = min 4 hc, step_ms = 3000, length_ms = 10000, keep_ms = 200,
       capture_id = - 1, max_tokens = 32, audio_ctx = 0,
       vad_thold = 5033165 / 8388608, freq_thold = 100,
       speed_up = False, from_wav_file = False, translate = False, no_fallback = False,
       print_special = False, no_context = True, no_timestamps = False,
       tinydiarize = False, save_audio = False, use_gpu = True,
       language = ''en'', model = ''models/ggml-base.en.bin'', fname_out = '''' \<rparr>"

text \<open>
  What is written to the standard streams: literal text, or the usage text that
  \<open>whisper_print_usage\<close> prints for a program name and the current parameters.
\<close>

datatype out_item = Str string | Usage string whisper_params

text \<open>
  \<open>std::stoi\<close>: \<open>strtol\<close> in base 10 (leading white space, an optional sign, digits;
  what follows the digits is ignored), \<open>invalid_argument\<close> without a digit,
  \<open>out_of_range\<close> when the value does not fit an \<open>int\<close>.
\<close>

definition is_space :: "char \<Rightarrow> bool" where
  "is_space c = (of_char c \<in> {32, 9, 10, 11, 12, 13 :: nat})"

definition is_digit :: "char \<Rightarrow> bool" where
  "is_digit c = (48 \<le> (of_char c :: nat) \<and> (of_char c :: nat) \<le> 57)"

definition dec_value :: "string \<Rightarrow> int" where
  "dec_value ds = foldl (\<lambda>acc c. 10 * acc + (of_char c - 48)) 0 ds"

definition stoi :: "string \<Rightarrow> exn + int" where
  "stoi s =
     (let s1 = dropWhile is_space s;
          neg = (s1 \<noteq> [] \<and> hd s1 = CHR ''-'');
          s2 = (if s1 \<noteq> [] \<and> (hd s1 = CHR ''-'' \<or> hd s1 = CHR ''+'') then tl s1 else s1);
          ds = takeWhile is_digit s2
      in if ds = [] then Inl (Invalid_argument ''stoi'')
         else
           let v = (if neg then - dec_value ds else dec_value ds)
           in if v < - (2 ^ 31) \<or> 2 ^ 31 \<le> v then Inl (Out_of_range ''stoi'') else Inr v)"

text \<open>
  The result of \<open>whisper_params_parse\<close>: it returns a flag and the parameters, or the
  process ends inside it, after writing \<open>items\<close> to the standard error stream.
\<close>

datatype parse_result =
    Returned bool whisper_params
  | Stop "out_item list" outcome

text \<open>
  One option with a value, \<open>argv[++i]\<close>. Past the last argument \<open>argv[argc]\<close> is the
  null pointer, and building a \<open>std::string\<close> from it is undefined.
\<close>

definition int_option ::
  "string list \<Rightarrow> (int \<Rightarrow> whisper_params) \<Rightarrow> parse_result + whisper_params \<times> nat" where
  "int_option rest upd =
     (case rest of
        [] \<Rightarrow> Inl (Stop [] Undefined)
      | v # _ \<Rightarrow> (case stoi v of
                   Inl e \<Rightarrow> Inl (Stop [] (Uncaught e))
                 | Inr n \<Rightarrow> Inr (upd n, 1)))"

definition float_option ::
  "(string \<Rightarrow> exn + cfloat) \<Rightarrow> string list \<Rightarrow> (cfloat \<Rightarrow> whisper_params)
     \<Rightarrow> parse_result + whisper_params \<times> nat" where
  "float_option stof rest upd =
     (case rest of
        [] \<Rightarrow> Inl (Stop [] Undefined)
      | v # _ \<Rightarrow> (case stof v of
                   Inl e \<Rightarrow> Inl (Stop [] (Uncaught e))
                 | Inr x \<Rightarrow> Inr (upd x, 1)))"

definition string_option ::
  "string list \<Rightarrow> (string \<Rightarrow> whisper_params) \<Rightarrow> parse_result + whisper_params \<times> nat" where
  "string_option rest upd =
     (case rest of
        [] \<Rightarrow> Inl (Stop [] Undefined)
      | v # _ \<Rightarrow> Inr (upd v, 1))"

text \<open>
  The body of the \<open>for\<close> loop of \<open>whisper_params_parse\<close> for the argument \<open>arg\<close>
  followed by \<open>rest\<close>: the new parameters and the number of further arguments it has
  consumed, or the end of the process. \<open>stof\<close> is \<open>std::stof\<close>.
\<close>

definition parse_arg ::
  "(string \<Rightarrow> exn + cfloat) \<Rightarrow> string \<Rightarrow> string \<Rightarrow> string list \<Rightarrow> whisper_params
     \<Rightarrow> parse_result + whisper_params \<times> nat" where
  "parse_arg stof argv0 arg rest p =
     (if arg = ''-h'' \<or> arg = ''--help'' then Inl (Stop [Usage argv0 p] (Exit 0))
      else if arg = ''-t'' \<or> arg = ''--threads'' then int_option rest (\<lambda>n. p\<lparr>n_threads := n\<rparr>)
      else if arg = ''--step'' then int_option rest (\<lambda>n. p\<lparr>step_ms := n\<rparr>)
      else if arg = ''--length'' then int_option rest (\<lambda>n. p\<lparr>length_ms := n\<rparr>)
      else if arg = ''--keep'' then int_option rest (\<lambda>n. p\<lparr>keep_ms := n\<rparr>)
      else if arg = ''-c'' \<or> arg = ''--capture'' then int_option rest (\<lambda>n. p\<lparr>capture_id := n\<rparr>)
      else if arg = ''-mt'' \<or> arg = ''--max-tokens'' then int_option rest (\<lambda>n. p\<lparr>max_tokens := n\<rparr>)
      else if arg = ''-ac'' \<or> arg = ''--audio-ctx'' then int_option rest (\<lambda>n. p\<lparr>audio_ctx := n\<rparr>)
      else if arg = ''-vth'' \<or> arg = ''--vad-thold'' then float_option stof rest (\<lambda>x. p\<lparr>vad_thold := x\<rparr>)
      else if arg = ''-fth'' \<or> arg = ''--freq-thold'' then float_option stof rest (\<lambda>x. p\<lparr>freq_thold := x\<rparr>)
      else if arg = ''-su'' \<or> arg = ''--speed-up'' then Inr (p\<lparr>speed_up := True\<rparr>, 0)
      else if arg = ''-tr'' \<or> arg = ''--translate'' then Inr (p\<lparr>translate := True\<rparr>, 0)
      else if arg = ''-nf'' \<or> arg = ''--no-fallback'' then Inr (p\<lparr>no_fallback := True\<rparr>, 0)
      else if arg = ''-ps'' \<or> arg = ''--print-special'' then Inr (p\<lparr>print_special := True\<rparr>, 0)
      else if arg = ''-kc'' \<or> arg = ''--keep-context'' then Inr (p\<lparr>no_context := False\<rparr>, 0)
      else if arg = ''-l'' \<or> arg = ''--language'' then string_option rest (\<lambda>v. p\<lparr>language := v\<rparr>)
      else if arg = ''-m'' \<or> arg = ''--model'' then string_option rest (\<lambda>v. p\<lparr>model := v\<rparr>)
      else if arg = ''-f'' \<or> arg = ''--file'' then string_option rest (\<lambda>v. p\<lparr>fname_out := v\<rparr>)
      else if arg = ''-tdrz'' \<or> arg = ''--tinydiarize'' then Inr (p\<lparr>tinydiarize := True\<rparr>, 0)
      else if arg = ''-sa'' \<or> arg = ''--save-audio'' then Inr (p\<lparr>save_audio := True\<rparr>, 0)
      else if arg = ''-ng'' \<or> arg = ''--no-gpu'' then Inr (p\<lparr>use_gpu := False\<rparr>, 0)
      else if arg = ''--from-wav-file'' then Inr (p\<lparr>from_wav_file := True\<rparr>, 0)
      else Inl (Stop [Str (''error: unknown argument: '' @ arg @ ''\<newline>''), Usage argv0 p]
                     (Exit 0)))"

text \<open>
  \<open>whisper_params_parse\<close> over the arguments \<open>argv[1 .. argc - 1]\<close>. After the loop
  the function returns \<open>true\<close>.
\<close>

fun whisper_params_parse ::
  "(string \<Rightarrow> exn + cfloat) \<Rightarrow> string \<Rightarrow> string list \<Rightarrow> whisper_params \<Rightarrow> parse_result" where
  "whisper_params_parse stof argv0 [] p = Returned True p"
| "whisper_params_parse stof argv0 (arg # rest) p =
     (case parse_arg stof argv0 arg rest p of
        Inl r \<Rightarrow> r
      | Inr (p', k) \<Rightarrow> whisper_params_parse stof argv0 (drop k rest) p')"

subsection \<open>Standard input\<close>

text \<open>
  \<open>std::cin\<close> over a finite input: the bytes not yet extracted, the state bits and
  the count of the last unformatted read. An unformatted input function first builds a
  sentry, which sets \<open>failbit\<close> and extracts nothing unless the stream is good.
\<close>

record istream =
  rest :: "byte list"
  eofbit :: bool
  failbit :: bool
  gcount :: nat

definition good :: "istream \<Rightarrow> bool" where
  "good c = (\<not> eofbit c \<and> \<not> failbit c)"

text \<open>\<open>ignore(n)\<close> discards up to \<open>n\<close> bytes; the end of the input before that sets \<open>eofbit\<close>.\<close>

definition cin_ignore :: "nat \<Rightarrow> istream \<Rightarrow> istream" where
  "cin_ignore n c =
     (if \<not> good c then c\<lparr>failbit := True, gcount := 0\<rparr>
      else c\<lparr>rest := drop n (rest c), eofbit := length (rest c) < n,
             gcount := min n (length (rest c))\<rparr>)"

text \<open>
  \<open>read(buf, n)\<close> extracts up to \<open>n\<close> bytes; the end of the input before that sets
  \<open>eofbit\<close> and \<open>failbit\<close>. The result is the bytes stored at the front of \<open>buf\<close>.
\<close>

definition cin_read :: "nat \<Rightarrow> istream \<Rightarrow> byte list \<times> istream" where
  "cin_read n c =
     (if \<not> good c then ([], c\<lparr>failbit := True, gcount := 0\<rparr>)
      else (take n (rest c),
            c\<lparr>rest := drop n (rest c), eofbit := length (rest c) < n,
              failbit := length (rest c) < n, gcount := min n (length (rest c))\<rparr>))"

subsection \<open>Samples\<close>

text \<open>
  Buffers are reinterpreted as bytes by \<open>reinterpret_cast<char *>\<close>; the host is
  little-endian.
\<close>

definition f32_of_bytes :: "byte \<Rightarrow> byte \<Rightarrow> byte \<Rightarrow> byte \<Rightarrow> f32" where
  "f32_of_bytes a b c d = of_int (uint a + 256 * uint b + 65536 * uint c + 16777216 * uint d)"

definition bytes_of_f32 :: "f32 \<Rightarrow> byte list" where
  "bytes_of_f32 w =
     [of_int (uint w), of_int (uint w div 256), of_int (uint w div 65536),
      of_int (uint w div 16777216)]"

fun f32s_of_bytes :: "byte list \<Rightarrow> f32 list" where
  "f32s_of_bytes (a # b # c # d # bs) = f32_of_bytes a b c d # f32s_of_bytes bs"
| "f32s_of_bytes bs = []"

definition bytes_of_f32s :: "f32 list \<Rightarrow> byte list" where
  "bytes_of_f32s ws = concat (map bytes_of_f32 ws)"

fun i16s_of_bytes :: "byte list \<Rightarrow> 16 word list" where
  "i16s_of_bytes (a # b # bs) = of_int (uint a + 256 * uint b) # i16s_of_bytes bs"
| "i16s_of_bytes bs = []"

text \<open>
  \<open>sample / 32768.0f\<close>: the sample is converted to \<open>float\<close> and divided by \<open>2 ^ 15\<close>,
  both exactly. For a magnitude \<open>a\<close> with highest bit \<open>e\<close> the result has the sign
  bit of the sample, the biased exponent \<open>e - 15 + 127\<close>, and the bits of \<open>a\<close> below the
  highest at the top of the 23-bit fraction.
\<close>

definition f32_of_i16 :: "16 word \<Rightarrow> f32" where
  "f32_of_i16 x =
     (let v = sint x;
          a = \<bar>v\<bar>;
          e = bitlen a - 1
      in if v = 0 then 0
         else of_int ((if v < 0 then 2 ^ 31 else 0) + (int e + 112) * 2 ^ 23
                      + (a - 2 ^ e) * 2 ^ (23 - e)))"

text \<open>
  \<open>readWavStreamAsFloats\<close>: skip 44 bytes, read one buffer of zero-initialised 16-bit
  samples, throw when nothing was read, convert. The stream is returned with the result.
\<close>

definition readWavStreamAsFloats :: "int \<Rightarrow> istream \<Rightarrow> (exn + f32 list) \<times> istream" where
  "readWavStreamAsFloats rate c =
     (let c1 = cin_ignore 44 c;
          n = wav_buffer_len rate;
          (got, c2) = cin_read (n * 2) c1;
          buffer16 = i16s_of_bytes (got @ replicate (n * 2 - length got) 0)
      in if gcount c2 = 0
         then (Inl (Runtime_error ''Error reading WAV data from standard input.''), c2)
         else (Inr (map f32_of_i16 buffer16), c2))"

subsection \<open>The engine and the environment\<close>

text \<open>The fields of \<open>whisper_full_params\<close> that \<open>main\<close> sets (prefixed with \<open>wp_\<close>).\<close>

record whisper_full_params =
  wp_print_progress :: bool
  wp_print_special :: bool
  wp_print_realtime :: bool
  wp_print_timestamps :: bool
  wp_translate :: bool
  wp_single_segment :: bool
  wp_max_tokens :: int
  wp_language :: string
  wp_n_threads :: int
  wp_audio_ctx :: int
  wp_speed_up :: bool
  wp_tdrz_enable :: bool
  wp_temperature_inc :: cfloat

text \<open>
  One segment as the accessors \<open>whisper_full_get_segment_text\<close>, \<open>_t0\<close> and \<open>_t1\<close>
  return it.
\<close>

record segment =
  seg_text :: string
  seg_t0 :: int
  seg_t1 :: int

text \<open>
  What the program takes from outside: the constant \<open>WHISPER_SAMPLE_RATE\<close>, the
  standard library, the file system and the whisper API over an engine state \<open>'ctx\<close>.
  \<open>init_from_file\<close> is \<open>whisper_init_from_file_with_params\<close> (\<open>None\<close> is the null
  pointer), \<open>full_default_params\<close> is
  \<open>whisper_full_default_params(WHISPER_SAMPLING_GREEDY)\<close>, \<open>whisper_full\<close> returns its
  status and the new engine state, \<open>full_segments\<close> lists the segments of the last call.
\<close>

record 'ctx env =
  sample_rate :: int
  hardware_concurrency :: int
  stof :: "string \<Rightarrow> exn + cfloat"
  init_from_file :: "string \<Rightarrow> bool \<Rightarrow> 'ctx option"
  full_default_params :: whisper_full_params
  whisper_full :: "'ctx \<Rightarrow> whisper_full_params \<Rightarrow> f32 list \<Rightarrow> int \<times> 'ctx"
  full_segments :: "'ctx \<Rightarrow> segment list"
  can_open :: "string \<Rightarrow> bool"

subsection \<open>The state of \<open>main\<close>\<close>

text \<open>
  The streams and the output file, with the list of the buffers that have been passed
  to \<open>whisper_full\<close> so far (\<open>full_calls\<close>, kept for the statements about the calls).
\<close>

record world =
  cin :: istream
  cout :: "string list"
  cerr :: "out_item list"
  fout_is_open :: bool
  fout :: "string list"
  full_calls :: "f32 list list"

record 'ctx state =
  world :: world
  ctx :: 'ctx
  pcmf32 :: "f32 list"
  pcmf32_old :: "f32 list"
  is_running :: bool
  n_iter :: int

definition init_world :: "byte list \<Rightarrow> world" where
  "init_world bs =
     \<lparr> cin = \<lparr> rest = bs, eofbit = False, failbit = False, gcount = 0 \<rparr>,
       cout = [], cerr = [], fout_is_open = False, fout = [], full_calls = [] \<rparr>"

definition put_out :: "string \<Rightarrow> world \<Rightarrow> world" where
  "put_out m w = w\<lparr>cout := cout w @ [m]\<rparr>"

definition put_err :: "out_item \<Rightarrow> world \<Rightarrow> world" where
  "put_err m w = w\<lparr>cerr := cerr w @ [m]\<rparr>"

definition put_file :: "string \<Rightarrow> world \<Rightarrow> world" where
  "put_file m w = (if fout_is_open w then w\<lparr>fout := fout w @ [m]\<rparr> else w)"

definition say :: "string \<Rightarrow> 'ctx state \<Rightarrow> 'ctx state" where
  "say m s = s\<lparr>world := put_out m (world s)\<rparr>"

definition show_int :: "int \<Rightarrow> string" where
  "show_int v = (if v < 0 then ''-'' else []) @ digits10 \<bar>v\<bar>"

subsection \<open>The loop of \<open>main\<close>\<close>

definition full_params :: "'ctx env \<Rightarrow> whisper_params \<Rightarrow> whisper_full_params" where
  "full_params E p =
     (full_default_params E)
       \<lparr> wp_print_progress := False,
         wp_print_special := print_special p,
         wp_print_realtime := False,
         wp_print_timestamps := (\<not> no_timestamps p),
         wp_translate := translate p,
         wp_single_segment := True,
         wp_max_tokens := max_tokens p,
         wp_language := language p,
         wp_n_threads := n_threads p,
         wp_audio_ctx := audio_ctx p,
         wp_speed_up := speed_up p,
         wp_tdrz_enable := tinydiarize p,
         wp_temperature_inc :=
           (if no_fallback p then 0 else wp_temperature_inc (full_default_params E)) \<rparr>"

text \<open>
  The body of the loop over the segments: the text of one segment, bare or with its
  timestamps and a line end, goes to the console and, if the file is open, to the file.
\<close>

definition segment_text :: "whisper_params \<Rightarrow> segment \<Rightarrow> string" where
  "segment_text p g =
     (if no_timestamps p then seg_text g
      else ''['' @ to_timestamp (seg_t0 g) @ '' --> '' @ to_timestamp (seg_t1 g)
           @ ''] '' @ seg_text g @ ''\<newline>'')"

definition print_segment :: "whisper_params \<Rightarrow> segment \<Rightarrow> world \<Rightarrow> world" where
  "print_segment p g w = put_file (segment_text p g) (put_out (segment_text p g) w)"

definition print_segments :: "whisper_params \<Rightarrow> segment list \<Rightarrow> world \<Rightarrow> world" where
  "print_segments p gs w = foldl (\<lambda>w g. print_segment p g w) w gs"

text \<open>How one run of the loop body ends: at the loop condition, at \<open>break\<close>, or by an exception.\<close>

datatype flow = Next | Break | Throw exn

text \<open>
  \<open>std::cin.read(reinterpret_cast<char *>(pcmf32.data()), pcmf32.size() * sizeof(float))\<close>:
  the bytes read replace the front of the buffer, the rest of the buffer stays.
\<close>

definition read_raw :: "'ctx state \<Rightarrow> 'ctx state" where
  "read_raw s =
     (let (got, c) = cin_read (length (pcmf32 s) * 4) (cin (world s))
      in s\<lparr> world := (world s)\<lparr>cin := c\<rparr>,
            pcmf32 := f32s_of_bytes (got @ drop (length got) (bytes_of_f32s (pcmf32 s))) \<rparr>)"

text \<open>The loop body from the second test of \<open>std::cin.eof()\<close> on (after the read).\<close>

definition after_read ::
  "'ctx env \<Rightarrow> string \<Rightarrow> whisper_params \<Rightarrow> 'ctx state \<Rightarrow> flow \<times> 'ctx state" where
  "after_read E argv0 p s =
     (if eofbit (cin (world s)) then (Break, say ''End of audio stream detected.\<newline>'' s)
      else
        (let s1 = say (''Processing audio data, iteration '' @ show_int (n_iter s + 1)
                       @ ''...\<newline>'') s;
             s2 = (if eofbit (cin (world s1))
                   then say ''End of audio stream detected.\<newline>'' s1 else s1);
             (rc, c) = whisper_full E (ctx s2) (full_params E p) (pcmf32 s2);
             s3 = s2\<lparr> ctx := c,
                      world := (world s2)\<lparr>full_calls := full_calls (world s2) @ [pcmf32 s2]\<rparr> \<rparr>
         in if rc \<noteq> 0
            then (Next, s3\<lparr> world := put_err (Str (argv0 @ '': failed to process audio\<newline>''))
                                     (world s3),
                           is_running := False \<rparr>)
            else
              (let s4 = say ''Audio processed successfully.\<newline>'' s3;
                   s5 = s4\<lparr>world := print_segments p (full_segments E (ctx s4)) (world s4)\<rparr>
               in (Next, s5\<lparr>n_iter := n_iter s5 + 1\<rparr>))))"

definition loop_body ::
  "'ctx env \<Rightarrow> string \<Rightarrow> whisper_params \<Rightarrow> 'ctx state \<Rightarrow> flow \<times> 'ctx state" where
  "loop_body E argv0 p s =
     (if from_wav_file p then
        (let s1 = say ''Reading audio data from standard input...\<newline>'' s;
             (r, c) = readWavStreamAsFloats (sample_rate E) (cin (world s1));
             s2 = s1\<lparr>world := (world s1)\<lparr>cin := c\<rparr>\<rparr>
         in case r of
              Inl e \<Rightarrow> (Throw e, s2)
            | Inr v \<Rightarrow> after_read E argv0 p (s2\<lparr>pcmf32 := v\<rparr>))
      else
        (let s1 = read_raw (say ''Reading audio data from standard input...\<newline>'' s)
         in if eofbit (cin (world s1))
            then (Break, say ''End of audio stream detected.\<newline>'' s1)
            else after_read E argv0 p s1))"

text \<open>
  \<open>while (is_running) { ... }\<close>. The loop need not end (an empty buffer never meets the
  end of the input), so it runs on fuel: \<open>None\<close> when the fuel is used up. The result
  is the exception that left the loop, if any, and the state.
\<close>

fun main_loop ::
  "'ctx env \<Rightarrow> string \<Rightarrow> whisper_params \<Rightarrow> nat \<Rightarrow> 'ctx state
     \<Rightarrow> (exn option \<times> 'ctx state) option" where
  "main_loop E argv0 p 0 s = (if is_running s then None else Some (None, s))"
| "main_loop E argv0 p (Suc k) s =
     (if \<not> is_running s then Some (None, s)
      else case loop_body E argv0 p s of
             (Next, s') \<Rightarrow> main_loop E argv0 p k s'
           | (Break, s') \<Rightarrow> Some (None, s')
           | (Throw e, s') \<Rightarrow> Some (Some e, s'))"

text \<open>
  The state in which iteration \<open>k\<close> (counted from 0) begins, \<open>None\<close> when the loop has
  ended before.
\<close>

fun state_at ::
  "'ctx env \<Rightarrow> string \<Rightarrow> whisper_params \<Rightarrow> nat \<Rightarrow> 'ctx state \<Rightarrow> 'ctx state option" where
  "state_at E argv0 p 0 s = (if is_running s then Some s else None)"
| "state_at E argv0 p (Suc k) s =
     (if \<not> is_running s then None
      else case loop_body E argv0 p s of
             (Next, s') \<Rightarrow> state_at E argv0 p k s'
           | (Break, s') \<Rightarrow> None
           | (Throw e, s') \<Rightarrow> None)"

subsection \<open>The bytes of one iteration\<close>

text \<open>
  For the statements about the buffers: the bytes an iteration discards before it reads
  (\<open>std::cin.ignore(44)\<close> in wav mode), the bytes it reads into a buffer of \<open>n\<close>
  samples (\<open>buffer16.size() * sizeof(int16_t)\<close> in wav mode,
  \<open>pcmf32.size() * sizeof(float)\<close> otherwise), and the samples these bytes become.
\<close>

definition skipped_bytes :: "whisper_params \<Rightarrow> nat" where
  "skipped_bytes p = (if from_wav_file p then 44 else 0)"

definition window_bytes :: "'ctx env \<Rightarrow> whisper_params \<Rightarrow> nat \<Rightarrow> nat" where
  "window_bytes E p n = (if from_wav_file p then wav_buffer_len (sample_rate E) * 2 else n * 4)"

definition decode_window :: "whisper_params \<Rightarrow> byte list \<Rightarrow> f32 list" where
  "decode_window p bs =
     (if from_wav_file p then map f32_of_i16 (i16s_of_bytes bs) else f32s_of_bytes bs)"

subsection \<open>\<open>main\<close>\<close>

text \<open>The variables of \<open>main\<close> when the loop is entered, for a buffer of \<open>n\<close> samples.\<close>

definition init_state :: "'ctx \<Rightarrow> nat \<Rightarrow> world \<Rightarrow> 'ctx state" where
  "init_state c n w =
     \<lparr> world = w, ctx = c, pcmf32 = replicate n 0, pcmf32_old = [],
       is_running = True, n_iter = 0 \<rparr>"

text \<open>Opening the output file when a name is given; \<open>Some\<close> is the \<open>return 3\<close>.\<close>

definition open_output :: "'ctx env \<Rightarrow> whisper_params \<Rightarrow> world \<Rightarrow> outcome option \<times> world" where
  "open_output E p w =
     (if fname_out p \<noteq> [] then
        (let w1 = put_out (''Opening output file: '' @ fname_out p @ ''\<newline>'') w
         in if \<not> can_open E (fname_out p)
            then (Some (Exit 3),
                  put_err (Str (''Failed to open output file: '' @ fname_out p @ ''\<newline>'')) w1)
            else (None, put_out ''Output file opened successfully.\<newline>''
                          (w1\<lparr>fout_is_open := True\<rparr>)))
      else (None, w))"

text \<open>What follows the loop: close the file, free the engine.\<close>

definition shutdown :: "world \<Rightarrow> world" where
  "shutdown w =
     (let w1 = (if fout_is_open w
                then (put_out ''Closing output file.\<newline>'' w)\<lparr>fout_is_open := False\<rparr> else w)
      in put_out ''Whisper RT Service terminated successfully.\<newline>''
           (put_out ''Freeing Whisper context.\<newline>'' w1))"

text \<open>
  \<open>main\<close> between the parsing of the parameters and the loop: the step size, the
  engine, the buffer, the output file. \<open>Inl\<close> is the end of the process before the
  loop, \<open>Inr\<close> the state in which the loop is entered. A negative size makes the
  constructor of \<open>pcmf32\<close> throw \<open>std::length_error\<close>.
\<close>

definition prologue :: "'ctx env \<Rightarrow> whisper_params \<Rightarrow> world \<Rightarrow> outcome \<times> world + 'ctx state" where
  "prologue E p w =
     (case n_samples_step (sample_rate E) (step_ms p) of
        None \<Rightarrow> Inl (Undefined, w)
      | Some n \<Rightarrow>
         (let w1 = put_out ''Initializing Whisper context...\<newline>'' w
          in case init_from_file E (model p) (use_gpu p) of
               None \<Rightarrow> Inl (Exit 2, put_err (Str ''Failed to initialize whisper context.\<newline>'') w1)
             | Some c \<Rightarrow>
                (let w2 = put_out ''Whisper context initialized successfully.\<newline>'' w1
                 in if n < 0 then Inl (Uncaught Length_error, w2)
                    else case open_output E p w2 of
                           (Some oc, w3) \<Rightarrow> Inl (oc, w3)
                         | (None, w3) \<Rightarrow>
                            Inr (init_state c (nat n)
                                   (put_out ''Starting main audio processing loop...\<newline>'' w3)))))"

text \<open>
  \<open>main\<close> after the loop: an exception that left the loop is not caught; otherwise
  the file is closed, the engine freed and \<open>main\<close> returns 0.
\<close>

definition epilogue :: "exn option \<times> 'ctx state \<Rightarrow> outcome \<times> world" where
  "epilogue r =
     (case r of
        (Some e, s) \<Rightarrow> (Uncaught e, world s)
      | (None, s) \<Rightarrow> (Exit 0, shutdown (world s)))"

text \<open>\<open>main\<close> after the parameters have been parsed.\<close>

definition run ::
  "'ctx env \<Rightarrow> string \<Rightarrow> whisper_params \<Rightarrow> world \<Rightarrow> nat \<Rightarrow> (outcome \<times> world) option" where
  "run E argv0 p w fuel =
     (case prologue E p w of
        Inl r \<Rightarrow> Some r
      | Inr s0 \<Rightarrow> map_option epilogue (main_loop E argv0 p fuel s0))"

text \<open>
  \<open>main\<close> for the program name \<open>argv[0]\<close>, the arguments \<open>argv[1 .. argc - 1]\<close> and the
  bytes on standard input: how the process ends and what it has done, or \<open>None\<close> when
  the loop has not ended within the fuel.
\<close>

definition main ::
  "'ctx env \<Rightarrow> string \<Rightarrow> string list \<Rightarrow> byte list \<Rightarrow> nat \<Rightarrow> (outcome \<times> world) option" where
  "main E argv0 args bs fuel =
     (let w0 = put_out ''Initializing Whisper RT Service...\<newline>'' (init_world bs)
      in case whisper_params_parse (stof E) argv0 args (default_params (hardware_concurrency E)) of
           Stop items oc \<Rightarrow> Some (oc, w0\<lparr>cerr := cerr w0 @ items\<rparr>)
         | Returned ok p \<Rightarrow>
            (if \<not> ok then Some (Exit 1, put_err (Str ''Error: Failed to parse parameters.\<newline>'') w0)
             else run E argv0 p (put_out ''Parsed parameters successfully.\<newline>'' w0) fuel))"

subsection \<open>A test environment\<close>

text \<open>
  An engine for the concrete runs below: its state counts the calls made, the call
  numbered \<open>fail_at\<close> (from 0) fails with status 1, and every call leaves one segment.
  Every output file can be opened if and only if \<open>writable\<close>.
\<close>

definition demo_defaults :: whisper_full_params where
  "demo_defaults =
     \<lparr> wp_print_progress = True, wp_print_special = False, wp_print_realtime = False,
       wp_print_timestamps = True, wp_translate = False, wp_single_segment = False,
       wp_max_tokens = 0, wp_language = ''en'', wp_n_threads = 4, wp_audio_ctx = 0,
       wp_speed_up = False, wp_tdrz_enable = False, wp_temperature_inc = 1 / 5 \<rparr>"

definition demo_env :: "nat option \<Rightarrow> bool \<Rightarrow> nat env" where
  "demo_env fail_at writable =
     \<lparr> sample_rate = 16000, hardware_concurrency = 8,
       stof = (\<lambda>s. Inl (Invalid_argument ''stof'')),
       init_from_file = (\<lambda>m g. Some 0),
       full_default_params = demo_defaults,
       whisper_full = (\<lambda>c wp w. (if Some c = fail_at then 1 else 0, Suc c)),
       full_segments = (\<lambda>c. [\<lparr> seg_text = '' hello'', seg_t0 = 0, seg_t1 = 6134 \<rparr>]),
       can_open = (\<lambda>f. writable) \<rparr>"

text \<open>
  Parameters as the options \<open>--step 2 --length 2 --keep 1 -kc\<close>,
  \<open>--step 1 --from-wav-file\<close>, \<open>--step 1 --length 2\<close> and \<open>--step 4007\<close> leave them.
\<close>

definition kc_params :: whisper_params where
  "kc_params = (default_params 8)\<lparr>step_ms := 2, length_ms := 2, keep_ms := 1, no_context := False\<rparr>"

definition wav_params :: whisper_params where
  "wav_params = (default_params 8)\<lparr>step_ms := 1, from_wav_file := True\<rparr>"

definition step1_params :: whisper_params where
  "step1_params = (default_params 8)\<lparr>step_ms := 1, length_ms := 2\<rparr>"

definition step4007_params :: whisper_params where
  "step4007_params = (default_params 8)\<lparr>step_ms := 4007\<rparr>"

section \<open>Properties\<close>

subsection \<open>Buffer sizes\<close>

lemma dbl_examples:
  "dbl_mul dbl_1e_3 (dbl_of_int 10000) = (5629499534213120, - 49)"
  "dbl_trunc (dbl_mul dbl_1e_3 (dbl_of_int 10000)) = 10"
  "dbl_mul (dbl_mul dbl_1e_3 (dbl_of_int 4007)) (dbl_of_int 16000) = (8811486184996863, - 37)"
  by code_simp+


lemma n_samples_step_3000: "n_samples_step 16000 3000 = Some 48000"
  by code_simp

lemma n_samples_step_small:
  "n_samples_step 16000 1 = Some 16" "n_samples_step 16000 2 = Some 32"
  by code_simp+

lemma wav_buffer_len_16000: "wav_buffer_len 16000 = 160000"
proof -
  have "dbl_trunc (dbl_mul (dbl_mul dbl_1e_3 (dbl_of_int 10000)) (dbl_of_int 16000)) = 160000"
    by code_simp
  then show ?thesis by (simp add: wav_buffer_len_def)
qed

subsection \<open>Sample conversions\<close>

lemma f32_of_i16_examples:
  "map f32_of_i16 [16384, - 32768, 1, 32767, 0, - 1]
     = [0x3F000000, 0xBF800000, 0x38000000, 0x3F7FFE00, 0, 0xB8000000]"
  by code_simp

lemma f32s_of_bytes_example:
  "f32s_of_bytes [0, 0, 0x80, 0x3F, 1, 2, 3, 4, 7] = [0x3F800000, 0x04030201]"
  "bytes_of_f32s [0x3F800000, 0x04030201] = [0, 0, 0x80, 0x3F, 1, 2, 3, 4]"
  by code_simp+


subsection \<open>Buffers and the loop body\<close>

lemma length_f32s_of_bytes: "length (f32s_of_bytes bs) = length bs div 4"
  by (induction bs rule: f32s_of_bytes.induct) simp_all

lemma length_i16s_of_bytes: "length (i16s_of_bytes bs) = length bs div 2"
  by (induction bs rule: i16s_of_bytes.induct) simp_all

lemma length_bytes_of_f32s: "length (bytes_of_f32s ws) = 4 * length ws"
  by (induction ws) (simp_all add: bytes_of_f32s_def bytes_of_f32_def)

lemma print_segment_keeps:
  "cin (print_segment p g w) = cin w"
  "full_calls (print_segment p g w) = full_calls w"
  "cerr (print_segment p g w) = cerr w"
  "fout_is_open (print_segment p g w) = fout_is_open w"
  by (simp_all add: print_segment_def put_file_def put_out_def)

lemma print_segments_keeps:
  "cin (print_segments p gs w) = cin w"
  "full_calls (print_segments p gs w) = full_calls w"
  "cerr (print_segments p gs w) = cerr w"
  "fout_is_open (print_segments p gs w) = fout_is_open w"
  unfolding print_segments_def
  by (induction gs arbitrary: w) (simp_all add: print_segment_keeps)

lemma after_read_eof:
  "eofbit (cin (world s)) \<Longrightarrow>
     after_read E argv0 p s = (Break, say ''End of audio stream detected.\<newline>'' s)"
  by (simp add: after_read_def)

lemma after_read_next:
  assumes "\<not> eofbit (cin (world s))"
  shows "fst (after_read E argv0 p s) = Next"
    and "cin (world (snd (after_read E argv0 p s))) = cin (world s)"
    and "full_calls (world (snd (after_read E argv0 p s))) = full_calls (world s) @ [pcmf32 s]"
    and "pcmf32 (snd (after_read E argv0 p s)) = pcmf32 s"
    and "pcmf32_old (snd (after_read E argv0 p s)) = pcmf32_old s"
    and "is_running (snd (after_read E argv0 p s)) =
           (is_running s \<and> fst (whisper_full E (ctx s) (full_params E p) (pcmf32 s)) = 0)"
  using assms
  by (auto simp add: after_read_def Let_def say_def put_out_def put_err_def print_segments_keeps
      split: prod.splits)

lemma cin_read_full:
  "good c \<Longrightarrow> n \<le> length (rest c) \<Longrightarrow>
     cin_read n c = (take n (rest c),
       c\<lparr>rest := drop n (rest c), eofbit := False, failbit := False, gcount := n\<rparr>)"
  by (simp add: cin_read_def)

lemma cin_read_short:
  "failbit c \<longrightarrow> eofbit c \<Longrightarrow> \<not> (good c \<and> n \<le> length (rest c)) \<Longrightarrow>
     eofbit (snd (cin_read n c))"
  by (auto simp add: cin_read_def good_def)

lemma read_raw_keeps:
  "pcmf32_old (read_raw s) = pcmf32_old s"
  "is_running (read_raw s) = is_running s"
  "n_iter (read_raw s) = n_iter s"
  "ctx (read_raw s) = ctx s"
  "full_calls (world (read_raw s)) = full_calls (world s)"
  "cout (world (read_raw s)) = cout (world s)"
  "cin (world (read_raw s)) = snd (cin_read (length (pcmf32 s) * 4) (cin (world s)))"
  by (simp_all add: read_raw_def split: prod.splits)

lemma length_read_raw: "length (pcmf32 (read_raw s)) = length (pcmf32 s)"
proof -
  obtain got c where r: "cin_read (length (pcmf32 s) * 4) (cin (world s)) = (got, c)"
    by (cases "cin_read (length (pcmf32 s) * 4) (cin (world s))")
  then have "length got \<le> length (pcmf32 s) * 4"
    by (auto simp add: cin_read_def split: if_splits)
  then show ?thesis
    using r by (simp add: read_raw_def length_f32s_of_bytes length_bytes_of_f32s)
qed

lemma read_raw_full:
  assumes "good (cin (world s))" and "length (pcmf32 s) * 4 \<le> length (rest (cin (world s)))"
  shows "pcmf32 (read_raw s) = f32s_of_bytes (take (length (pcmf32 s) * 4) (rest (cin (world s))))"
    and "rest (cin (world (read_raw s))) = drop (length (pcmf32 s) * 4) (rest (cin (world s)))"
    and "good (cin (world (read_raw s)))"
  using assms
  by (simp_all add: read_raw_def cin_read_full length_bytes_of_f32s good_def)

lemma say_keeps:
  "cin (world (say m s)) = cin (world s)"
  "full_calls (world (say m s)) = full_calls (world s)"
  "pcmf32 (say m s) = pcmf32 s"
  "pcmf32_old (say m s) = pcmf32_old s"
  "is_running (say m s) = is_running s"
  "ctx (say m s) = ctx s"
  "n_iter (say m s) = n_iter s"
  by (simp_all add: say_def put_out_def)

lemma loop_body_raw_full:
  assumes "\<not> from_wav_file p" and "good (cin (world s))"
    and "length (pcmf32 s) * 4 \<le> length (rest (cin (world s)))"
  shows "fst (loop_body E argv0 p s) = Next"
    and "full_calls (world (snd (loop_body E argv0 p s))) =
           full_calls (world s)
           @ [f32s_of_bytes (take (length (pcmf32 s) * 4) (rest (cin (world s))))]"
    and "rest (cin (world (snd (loop_body E argv0 p s)))) =
           drop (length (pcmf32 s) * 4) (rest (cin (world s)))"
    and "good (cin (world (snd (loop_body E argv0 p s))))"
    and "length (pcmf32 (snd (loop_body E argv0 p s))) = length (pcmf32 s)"
proof -
  let ?s1 = "read_raw (say ''Reading audio data from standard input...\<newline>'' s)"
  have g: "good (cin (world ?s1))"
    and r: "rest (cin (world ?s1)) = drop (length (pcmf32 s) * 4) (rest (cin (world s)))"
    and w: "pcmf32 ?s1 = f32s_of_bytes (take (length (pcmf32 s) * 4) (rest (cin (world s))))"
    using assms(2,3) read_raw_full [of "say ''Reading audio data from standard input...\<newline>'' s"]
    by (simp_all add: say_keeps)
  from g have e: "\<not> eofbit (cin (world ?s1))" by (simp add: good_def)
  have lb: "loop_body E argv0 p s = after_read E argv0 p ?s1"
    using assms(1) e by (simp add: loop_body_def Let_def)
  show "fst (loop_body E argv0 p s) = Next"
    by (simp add: lb after_read_next(1) [OF e])
  show "full_calls (world (snd (loop_body E argv0 p s))) =
           full_calls (world s)
           @ [f32s_of_bytes (take (length (pcmf32 s) * 4) (rest (cin (world s))))]"
    by (simp add: lb after_read_next(3) [OF e] w read_raw_keeps say_keeps)
  show "rest (cin (world (snd (loop_body E argv0 p s)))) =
           drop (length (pcmf32 s) * 4) (rest (cin (world s)))"
    by (simp add: lb after_read_next(2) [OF e] r)
  show "good (cin (world (snd (loop_body E argv0 p s))))"
    by (simp add: lb after_read_next(2) [OF e] g)
  show "length (pcmf32 (snd (loop_body E argv0 p s))) = length (pcmf32 s)"
    by (simp add: lb after_read_next(4) [OF e] length_read_raw say_keeps)
qed

lemma loop_body_raw_short:
  assumes "\<not> from_wav_file p" and "failbit (cin (world s)) \<longrightarrow> eofbit (cin (world s))"
    and "\<not> (good (cin (world s)) \<and> length (pcmf32 s) * 4 \<le> length (rest (cin (world s))))"
  shows "fst (loop_body E argv0 p s) = Break"
    and "full_calls (world (snd (loop_body E argv0 p s))) = full_calls (world s)"
proof -
  let ?s1 = "read_raw (say ''Reading audio data from standard input...\<newline>'' s)"
  have e: "eofbit (cin (world ?s1))"
    using cin_read_short [OF assms(2,3)] by (simp add: read_raw_keeps say_keeps)
  have lb: "loop_body E argv0 p s = (Break, say ''End of audio stream detected.\<newline>'' ?s1)"
    using assms(1) e by (simp add: loop_body_def Let_def)
  show "fst (loop_body E argv0 p s) = Break" by (simp add: lb)
  show "full_calls (world (snd (loop_body E argv0 p s))) = full_calls (world s)"
    by (simp add: lb say_keeps read_raw_keeps)
qed

lemma after_read_old: "pcmf32_old (snd (after_read E argv0 p s)) = pcmf32_old s"
  by (cases "eofbit (cin (world s))")
     (simp_all add: after_read_eof after_read_next(5) say_keeps)

lemma loop_body_old: "pcmf32_old (snd (loop_body E argv0 p s)) = pcmf32_old s"
  by (simp add: loop_body_def Let_def after_read_old say_keeps read_raw_keeps
      split: prod.splits sum.splits)

lemma readWav_full:
  assumes "good c" and "44 + wav_buffer_len rate * 2 \<le> length (rest c)"
    and "0 < wav_buffer_len rate"
  shows "readWavStreamAsFloats rate c =
           (Inr (map f32_of_i16 (i16s_of_bytes (take (wav_buffer_len rate * 2) (drop 44 (rest c))))),
            c\<lparr>rest := drop (44 + wav_buffer_len rate * 2) (rest c), eofbit := False,
              failbit := False, gcount := wav_buffer_len rate * 2\<rparr>)"
proof -
  let ?c1 = "c\<lparr>rest := drop 44 (rest c), eofbit := False, gcount := 44\<rparr>"
  have i: "cin_ignore 44 c = ?c1"
    using assms(1,2) by (simp add: cin_ignore_def)
  have g: "good ?c1" using assms(1) by (simp add: good_def)
  have l: "wav_buffer_len rate * 2 \<le> length (rest ?c1)" using assms(2) by simp
  have m: "min (length (rest c) - 44) (wav_buffer_len rate * 2) = wav_buffer_len rate * 2"
    using assms(2) by simp
  show ?thesis
    using assms(3)
    by (simp add: readWavStreamAsFloats_def Let_def i cin_read_full [OF g l] add.commute m)
qed

lemma readWav_partial:
  assumes "good c" and "44 < length (rest c)"
    and "length (rest c) < 44 + wav_buffer_len rate * 2"
  shows "\<exists>v. fst (readWavStreamAsFloats rate c) = Inr v"
    and "eofbit (snd (readWavStreamAsFloats rate c))"
  using assms
  by (auto simp add: readWavStreamAsFloats_def Let_def cin_ignore_def cin_read_def good_def)

lemma readWav_zero:
  assumes "\<not> good c \<or> length (rest c) \<le> 44 \<or> wav_buffer_len rate = 0"
  shows "fst (readWavStreamAsFloats rate c) =
           Inl (Runtime_error ''Error reading WAV data from standard input.'')"
  using assms
  by (auto simp add: readWavStreamAsFloats_def Let_def cin_ignore_def cin_read_def good_def)

lemma loop_body_wav_full:
  assumes "from_wav_file p" and "good (cin (world s))"
    and "44 + wav_buffer_len (sample_rate E) * 2 \<le> length (rest (cin (world s)))"
    and "0 < wav_buffer_len (sample_rate E)"
  shows "fst (loop_body E argv0 p s) = Next"
    and "full_calls (world (snd (loop_body E argv0 p s))) =
           full_calls (world s)
           @ [map f32_of_i16 (i16s_of_bytes (take (wav_buffer_len (sample_rate E) * 2)
                (drop 44 (rest (cin (world s))))))]"
    and "rest (cin (world (snd (loop_body E argv0 p s)))) =
           drop (44 + wav_buffer_len (sample_rate E) * 2) (rest (cin (world s)))"
    and "good (cin (world (snd (loop_body E argv0 p s))))"
proof -
  let ?s1 = "say ''Reading audio data from standard input...\<newline>'' s"
  let ?v = "map f32_of_i16 (i16s_of_bytes (take (wav_buffer_len (sample_rate E) * 2)
                (drop 44 (rest (cin (world s))))))"
  let ?c = "(cin (world s))\<lparr>rest := drop (44 + wav_buffer_len (sample_rate E) * 2)
                (rest (cin (world s))), eofbit := False,
              failbit := False, gcount := wav_buffer_len (sample_rate E) * 2\<rparr>"
  let ?s2 = "?s1\<lparr>world := (world ?s1)\<lparr>cin := ?c\<rparr>, pcmf32 := ?v\<rparr>"
  have rw: "readWavStreamAsFloats (sample_rate E) (cin (world ?s1)) = (Inr ?v, ?c)"
    using readWav_full [OF assms(2,3,4)] by (simp add: say_keeps)
  have lb: "loop_body E argv0 p s = after_read E argv0 p ?s2"
    using assms(1) by (simp add: loop_body_def Let_def rw)
  have e: "\<not> eofbit (cin (world ?s2))" by simp
  show "fst (loop_body E argv0 p s) = Next"
    by (simp only: lb after_read_next(1) [OF e])
  show "full_calls (world (snd (loop_body E argv0 p s))) = full_calls (world s) @ [?v]"
    by (simp add: lb after_read_next(3) [OF e] say_keeps)
  show "rest (cin (world (snd (loop_body E argv0 p s)))) =
           drop (44 + wav_buffer_len (sample_rate E) * 2) (rest (cin (world s)))"
    by (simp add: lb after_read_next(2) [OF e])
  show "good (cin (world (snd (loop_body E argv0 p s))))"
    by (simp add: lb after_read_next(2) [OF e] good_def)
qed

lemma loop_body_wav_partial:
  assumes "from_wav_file p" and "good (cin (world s))"
    and "44 < length (rest (cin (world s)))"
    and "length (rest (cin (world s))) < 44 + wav_buffer_len (sample_rate E) * 2"
  shows "fst (loop_body E argv0 p s) = Break"
    and "full_calls (world (snd (loop_body E argv0 p s))) = full_calls (world s)"
proof -
  let ?s1 = "say ''Reading audio data from standard input...\<newline>'' s"
  obtain r c where rw: "readWavStreamAsFloats (sample_rate E) (cin (world ?s1)) = (r, c)"
    by (cases "readWavStreamAsFloats (sample_rate E) (cin (world ?s1))")
  from readWav_partial [OF assms(2,3,4)] rw obtain v where v: "r = Inr v" and e: "eofbit c"
    by (auto simp add: say_keeps)
  have lb: "loop_body E argv0 p s =
      after_read E argv0 p (?s1\<lparr>world := (world ?s1)\<lparr>cin := c\<rparr>, pcmf32 := v\<rparr>)"
    using assms(1) by (simp add: loop_body_def Let_def rw v)
  show "fst (loop_body E argv0 p s) = Break"
    using e by (simp add: lb after_read_eof)
  show "full_calls (world (snd (loop_body E argv0 p s))) = full_calls (world s)"
    using e by (simp add: lb after_read_eof say_keeps)
qed

lemma loop_body_wav_zero:
  assumes "from_wav_file p"
    and "\<not> good (cin (world s)) \<or> length (rest (cin (world s))) \<le> 44
         \<or> wav_buffer_len (sample_rate E) = 0"
  shows "fst (loop_body E argv0 p s) =
           Throw (Runtime_error ''Error reading WAV data from standard input.'')"
    and "full_calls (world (snd (loop_body E argv0 p s))) = full_calls (world s)"
proof -
  let ?s1 = "say ''Reading audio data from standard input...\<newline>'' s"
  obtain r c where rw: "readWavStreamAsFloats (sample_rate E) (cin (world ?s1)) = (r, c)"
    by (cases "readWavStreamAsFloats (sample_rate E) (cin (world ?s1))")
  have r: "r = Inl (Runtime_error ''Error reading WAV data from standard input.'')"
    using readWav_zero [of "cin (world ?s1)" "sample_rate E"] assms(2) rw
    by (simp add: say_keeps)
  have lb: "loop_body E argv0 p s =
      (Throw (Runtime_error ''Error reading WAV data from standard input.''),
       ?s1\<lparr>world := (world ?s1)\<lparr>cin := c\<rparr>\<rparr>)"
    using assms(1) by (simp add: loop_body_def Let_def rw r)
  show "fst (loop_body E argv0 p s) =
           Throw (Runtime_error ''Error reading WAV data from standard input.'')"
    by (simp add: lb)
  show "full_calls (world (snd (loop_body E argv0 p s))) = full_calls (world s)"
    by (simp add: lb say_keeps)
qed

subsection \<open>The loop\<close>

lemma state_at_running: "state_at E argv0 p k s0 = Some s \<Longrightarrow> is_running s"
proof (induction k arbitrary: s0)
  case 0
  then show ?case by (simp split: if_splits)
next
  case (Suc k)
  then show ?case
    by (cases "loop_body E argv0 p s0") (auto split: if_splits flow.splits)
qed

lemma main_loop_state_at:
  "state_at E argv0 p k s0 = Some s \<Longrightarrow>
     main_loop E argv0 p (k + j) s0 = main_loop E argv0 p j s"
proof (induction k arbitrary: s0)
  case 0
  then show ?case by (simp split: if_splits)
next
  case (Suc k)
  then show ?case
    by (cases "loop_body E argv0 p s0") (auto split: if_splits flow.splits)
qed

lemma state_at_rule:
  assumes "state_at E argv0 p k s0 = Some s" and "I s0"
    and step: "\<And>s t. I s \<Longrightarrow> is_running s \<Longrightarrow> loop_body E argv0 p s = (Next, t) \<Longrightarrow> I t"
  shows "I s"
  using assms(1,2)
proof (induction k arbitrary: s0)
  case 0
  then show ?case by (simp split: if_splits)
next
  case (Suc k)
  show ?case
  proof (cases "loop_body E argv0 p s0")
    case (Pair f t)
    with Suc.prems(1) have r: "is_running s0" and f: "f = Next"
      and t: "state_at E argv0 p k t = Some s"
      by (auto split: if_splits flow.splits)
    from step [OF Suc.prems(2) r] Pair f have "I t" by simp
    with Suc.IH t show ?thesis by blast
  qed
qed

lemma main_loop_rule:
  assumes "main_loop E argv0 p fuel s0 = Some (x, s')" and "I s0"
    and step: "\<And>s t. I s \<Longrightarrow> is_running s \<Longrightarrow> loop_body E argv0 p s = (Next, t) \<Longrightarrow> I t"
    and stop: "\<And>s. I s \<Longrightarrow> Q s"
    and leave: "\<And>s f t. I s \<Longrightarrow> is_running s \<Longrightarrow> loop_body E argv0 p s = (f, t)
                  \<Longrightarrow> f \<noteq> Next \<Longrightarrow> Q t"
  shows "Q s'"
  using assms(1,2)
proof (induction fuel arbitrary: s0)
  case 0
  then show ?case by (auto split: if_splits intro: stop)
next
  case (Suc k)
  show ?case
  proof (cases "is_running s0")
    case False
    with Suc.prems show ?thesis by (auto intro: stop)
  next
    case True
    show ?thesis
    proof (cases "loop_body E argv0 p s0")
      case (Pair f t)
      show ?thesis
      proof (cases "f = Next")
        case True
        with Pair Suc.prems(1) \<open>is_running s0\<close>
        have m: "main_loop E argv0 p k t = Some (x, s')" by simp
        from step [OF Suc.prems(2) \<open>is_running s0\<close>] Pair True have "I t" by simp
        with Suc.IH m show ?thesis by blast
      next
        case False
        with Pair Suc.prems(1) \<open>is_running s0\<close> have "s' = t"
          by (cases f) auto
        with leave [OF Suc.prems(2) \<open>is_running s0\<close> Pair False] show ?thesis by simp
      qed
    qed
  qed
qed

lemma open_output_keeps:
  "cin (snd (open_output E p w)) = cin w"
  "full_calls (snd (open_output E p w)) = full_calls w"
  by (simp_all add: open_output_def Let_def put_out_def put_err_def)

lemma prologue_Inr:
  assumes "prologue E p w = Inr s0"
  shows "\<exists>n. n_samples_step (sample_rate E) (step_ms p) = Some (int n)
           \<and> pcmf32 s0 = replicate n 0 \<and> pcmf32_old s0 = [] \<and> is_running s0
           \<and> n_iter s0 = 0 \<and> cin (world s0) = cin w \<and> full_calls (world s0) = full_calls w"
proof -
  let ?w2 = "put_out ''Whisper context initialized successfully.\<newline>''
               (put_out ''Initializing Whisper context...\<newline>'' w)"
  from assms obtain n c w3 where n: "n_samples_step (sample_rate E) (step_ms p) = Some n"
    and pos: "0 \<le> n" and o: "open_output E p ?w2 = (None, w3)"
    and s0: "s0 = init_state c (nat n)
                    (put_out ''Starting main audio processing loop...\<newline>'' w3)"
    by (auto simp add: prologue_def Let_def split: option.splits if_splits prod.splits)
  from o open_output_keeps [of E p ?w2]
  have w3: "cin w3 = cin w" "full_calls w3 = full_calls w"
    by (simp_all add: put_out_def)
  from pos have "n = int (nat n)" by simp
  with n have "n_samples_step (sample_rate E) (step_ms p) = Some (int (nat n))" by simp
  moreover have "pcmf32 s0 = replicate (nat n) 0" "pcmf32_old s0 = []" "is_running s0"
    "n_iter s0 = 0" "cin (world s0) = cin w" "full_calls (world s0) = full_calls w"
    using w3 by (simp_all add: s0 init_state_def put_out_def)
  ultimately show ?thesis by blast
qed

lemma loop_body_raw_running:
  assumes "\<not> from_wav_file p" and "good (cin (world s))"
    and "length (pcmf32 s) * 4 \<le> length (rest (cin (world s)))"
  shows "is_running (snd (loop_body E argv0 p s)) =
           (is_running s \<and> fst (whisper_full E (ctx s) (full_params E p)
              (f32s_of_bytes (take (length (pcmf32 s) * 4) (rest (cin (world s)))))) = 0)"
proof -
  let ?s1 = "read_raw (say ''Reading audio data from standard input...\<newline>'' s)"
  have g: "good (cin (world ?s1))"
    and w: "pcmf32 ?s1 = f32s_of_bytes (take (length (pcmf32 s) * 4) (rest (cin (world s))))"
    using assms(2,3) read_raw_full [of "say ''Reading audio data from standard input...\<newline>'' s"]
    by (simp_all add: say_keeps)
  from g have e: "\<not> eofbit (cin (world ?s1))" by (simp add: good_def)
  have lb: "loop_body E argv0 p s = after_read E argv0 p ?s1"
    using assms(1) e by (simp add: loop_body_def Let_def)
  show ?thesis
    by (simp add: lb after_read_next(6) [OF e] w read_raw_keeps say_keeps)
qed

lemma loop_body_wav_running:
  assumes "from_wav_file p" and "good (cin (world s))"
    and "44 + wav_buffer_len (sample_rate E) * 2 \<le> length (rest (cin (world s)))"
    and "0 < wav_buffer_len (sample_rate E)"
  shows "is_running (snd (loop_body E argv0 p s)) =
           (is_running s \<and> fst (whisper_full E (ctx s) (full_params E p)
              (map f32_of_i16 (i16s_of_bytes (take (wav_buffer_len (sample_rate E) * 2)
                (drop 44 (rest (cin (world s)))))))) = 0)"
proof -
  let ?s1 = "say ''Reading audio data from standard input...\<newline>'' s"
  let ?v = "map f32_of_i16 (i16s_of_bytes (take (wav_buffer_len (sample_rate E) * 2)
                (drop 44 (rest (cin (world s))))))"
  let ?c = "(cin (world s))\<lparr>rest := drop (44 + wav_buffer_len (sample_rate E) * 2)
                (rest (cin (world s))), eofbit := False,
              failbit := False, gcount := wav_buffer_len (sample_rate E) * 2\<rparr>"
  let ?s2 = "?s1\<lparr>world := (world ?s1)\<lparr>cin := ?c\<rparr>, pcmf32 := ?v\<rparr>"
  have rw: "readWavStreamAsFloats (sample_rate E) (cin (world ?s1)) = (Inr ?v, ?c)"
    using readWav_full [OF assms(2,3,4)] by (simp add: say_keeps)
  have lb: "loop_body E argv0 p s = after_read E argv0 p ?s2"
    using assms(1) by (simp add: loop_body_def Let_def rw)
  have e: "\<not> eofbit (cin (world ?s2))" by simp
  show ?thesis
    by (simp add: lb after_read_next(6) [OF e] say_keeps)
qed

lemma loop_body_Next_raw:
  assumes "\<not> from_wav_file p" and "good (cin (world s))" and "fst (loop_body E argv0 p s) = Next"
  shows "length (pcmf32 s) * 4 \<le> length (rest (cin (world s)))"
proof (rule ccontr)
  assume "\<not> length (pcmf32 s) * 4 \<le> length (rest (cin (world s)))"
  with loop_body_raw_short(1) [OF assms(1), of s E argv0] assms(2)
  have "fst (loop_body E argv0 p s) = Break" by (simp add: good_def)
  with assms(3) show False by simp
qed

lemma loop_body_Next_wav:
  assumes "from_wav_file p" and "good (cin (world s))" and "fst (loop_body E argv0 p s) = Next"
  shows "44 + wav_buffer_len (sample_rate E) * 2 \<le> length (rest (cin (world s)))
         \<and> 0 < wav_buffer_len (sample_rate E)"
proof (rule ccontr)
  assume n: "\<not> (44 + wav_buffer_len (sample_rate E) * 2 \<le> length (rest (cin (world s)))
         \<and> 0 < wav_buffer_len (sample_rate E))"
  show False
  proof (cases "length (rest (cin (world s))) \<le> 44 \<or> wav_buffer_len (sample_rate E) = 0")
    case True
    with loop_body_wav_zero(1) [OF assms(1), of s E argv0] assms(3) show False by simp
  next
    case False
    with n have "44 < length (rest (cin (world s)))"
      and "length (rest (cin (world s))) < 44 + wav_buffer_len (sample_rate E) * 2"
      by auto
    with loop_body_wav_partial(1) [OF assms(1,2), of E argv0] assms(3) show False by simp
  qed
qed

lemma loop_body_leave:
  assumes "good (cin (world s))" and "fst (loop_body E argv0 p s) \<noteq> Next"
  shows "full_calls (world (snd (loop_body E argv0 p s))) = full_calls (world s)"
proof (cases "from_wav_file p")
  case False
  with loop_body_raw_full(1) [OF False assms(1), of E argv0] assms(2)
  have "\<not> length (pcmf32 s) * 4 \<le> length (rest (cin (world s)))" by blast
  with loop_body_raw_short(2) [OF False, of s E argv0] assms(1) show ?thesis
    by (simp add: good_def)
next
  case True
  show ?thesis
  proof (cases "length (rest (cin (world s))) \<le> 44 \<or> wav_buffer_len (sample_rate E) = 0")
    case True
    with loop_body_wav_zero(2) [OF \<open>from_wav_file p\<close>, of s E argv0] show ?thesis by simp
  next
    case False
    have "\<not> 44 + wav_buffer_len (sample_rate E) * 2 \<le> length (rest (cin (world s)))"
    proof
      assume "44 + wav_buffer_len (sample_rate E) * 2 \<le> length (rest (cin (world s)))"
      with loop_body_wav_full(1) [OF True assms(1), of E argv0] False
      have "fst (loop_body E argv0 p s) = Next" by simp
      with assms(2) show False by simp
    qed
    then have "length (rest (cin (world s))) < 44 + wav_buffer_len (sample_rate E) * 2"
      by simp
    with loop_body_wav_partial(2) [OF True assms(1), of E argv0] False show ?thesis by simp
  qed
qed

lemma loop_body_Next:
  assumes g: "good (cin (world s))" and n: "\<not> from_wav_file p \<longrightarrow> length (pcmf32 s) = n"
    and lb: "loop_body E argv0 p s = (Next, t)"
  shows "skipped_bytes p + window_bytes E p n \<le> length (rest (cin (world s)))"
    and "full_calls (world t) = full_calls (world s)
           @ [decode_window p (take (window_bytes E p n)
                (drop (skipped_bytes p) (rest (cin (world s)))))]"
    and "rest (cin (world t)) = drop (skipped_bytes p + window_bytes E p n) (rest (cin (world s)))"
    and "good (cin (world t))"
    and "\<not> from_wav_file p \<longrightarrow> length (pcmf32 t) = n"
proof -
  from lb have f: "fst (loop_body E argv0 p s) = Next" and t: "t = snd (loop_body E argv0 p s)"
    by simp_all
  show "skipped_bytes p + window_bytes E p n \<le> length (rest (cin (world s)))"
    using loop_body_Next_raw [OF _ g f] loop_body_Next_wav [OF _ g f] n
    by (auto simp add: skipped_bytes_def window_bytes_def)
  show "full_calls (world t) = full_calls (world s)
           @ [decode_window p (take (window_bytes E p n)
                (drop (skipped_bytes p) (rest (cin (world s)))))]"
    using loop_body_Next_raw [OF _ g f] loop_body_Next_wav [OF _ g f] n
      loop_body_raw_full(2) [OF _ g, of p E argv0] loop_body_wav_full(2) [OF _ g, of p E argv0]
    by (auto simp add: skipped_bytes_def window_bytes_def decode_window_def t)
  show "rest (cin (world t)) = drop (skipped_bytes p + window_bytes E p n) (rest (cin (world s)))"
    using loop_body_Next_raw [OF _ g f] loop_body_Next_wav [OF _ g f] n
      loop_body_raw_full(3) [OF _ g, of p E argv0] loop_body_wav_full(3) [OF _ g, of p E argv0]
    by (auto simp add: skipped_bytes_def window_bytes_def t)
  show "good (cin (world t))"
    using loop_body_Next_raw [OF _ g f] loop_body_Next_wav [OF _ g f] n
      loop_body_raw_full(4) [OF _ g, of p E argv0] loop_body_wav_full(4) [OF _ g, of p E argv0]
    by (auto simp add: t)
  show "\<not> from_wav_file p \<longrightarrow> length (pcmf32 t) = n"
    using loop_body_Next_raw [OF _ g f] n loop_body_raw_full(5) [OF _ g, of p E argv0]
    by (auto simp add: t)
qed

subsection \<open>The buffers passed to the engine\<close>

lemma windows_of_loop:
  fixes s0 :: "'a state"
  assumes ml: "main_loop E argv0 p fuel s0 = Some (x, s')"
    and g0: "good (cin (world s0))" and c0: "full_calls (world s0) = []"
    and n0: "\<not> from_wav_file p \<longrightarrow> length (pcmf32 s0) = n"
    and i: "i < length (full_calls (world s'))"
  shows "full_calls (world s') ! i =
           decode_window p (take (window_bytes E p n)
             (drop (i * (skipped_bytes p + window_bytes E p n) + skipped_bytes p)
                (rest (cin (world s0)))))"
    and "(i + 1) * (skipped_bytes p + window_bytes E p n) \<le> length (rest (cin (world s0)))"
proof -
  define K where "K = skipped_bytes p"
  define W where "W = window_bytes E p n"
  define bs where "bs = rest (cin (world s0))"
  define Qf where "Qf cs \<longleftrightarrow>
      (\<forall>i<length cs. cs ! i = decode_window p (take W (drop (i * (K + W) + K) bs))
         \<and> (i + 1) * (K + W) \<le> length bs)" for cs
  define I :: "'a state \<Rightarrow> bool" where "I s \<longleftrightarrow>
      good (cin (world s)) \<and> (\<not> from_wav_file p \<longrightarrow> length (pcmf32 s) = n)
      \<and> Qf (full_calls (world s))
      \<and> rest (cin (world s)) = drop (length (full_calls (world s)) * (K + W)) bs
      \<and> length (full_calls (world s)) * (K + W) \<le> length bs" for s
  have "Qf (full_calls (world s'))"
    using ml
  proof (rule main_loop_rule [where I = I and Q = "\<lambda>s. Qf (full_calls (world s))"])
    show "I s0"
      using g0 c0 n0 by (simp add: I_def Qf_def bs_def)
  next
    fix s assume "I s"
    then show "Qf (full_calls (world s))" by (simp add: I_def)
  next
    fix s f t
    assume "I s" and lb: "loop_body E argv0 p s = (f, t)" and "f \<noteq> Next"
    then have "full_calls (world t) = full_calls (world s)"
      using loop_body_leave [of s E argv0 p] by (simp add: I_def)
    with \<open>I s\<close> show "Qf (full_calls (world t))" by (simp add: I_def)
  next
    fix s t
    assume Is: "I s" and lb: "loop_body E argv0 p s = (Next, t)"
    let ?cs = "full_calls (world s)"
    let ?k = "length ?cs"
    from Is have g: "good (cin (world s))"
      and n: "\<not> from_wav_file p \<longrightarrow> length (pcmf32 s) = n"
      and q: "Qf ?cs" and r: "rest (cin (world s)) = drop (?k * (K + W)) bs"
      and l: "?k * (K + W) \<le> length bs"
      by (simp_all add: I_def)
    note nx = loop_body_Next [OF g n lb, folded K_def W_def]
    from nx(1) r l have l': "(?k + 1) * (K + W) \<le> length bs" by simp
    have c: "full_calls (world t) = ?cs @ [decode_window p (take W (drop (?k * (K + W) + K) bs))]"
      using nx(2) r by (simp add: add.commute)
    have "Qf (full_calls (world t))"
      unfolding Qf_def
    proof (intro allI impI)
      fix j assume "j < length (full_calls (world t))"
      then have "j < ?k \<or> j = ?k" by (auto simp add: c)
      then show "full_calls (world t) ! j = decode_window p (take W (drop (j * (K + W) + K) bs))
          \<and> (j + 1) * (K + W) \<le> length bs"
      proof
        assume "j < ?k"
        with q show ?thesis by (simp add: c nth_append Qf_def)
      next
        assume "j = ?k"
        with l' show ?thesis by (simp add: c)
      qed
    qed
    moreover have "rest (cin (world t)) = drop (length (full_calls (world t)) * (K + W)) bs"
      using nx(3) r by (simp add: c add.commute)
    moreover have "length (full_calls (world t)) * (K + W) \<le> length bs"
      using l' by (simp add: c)
    ultimately show "I t"
      using nx(4,5) by (simp add: I_def)
  qed
  with i show "full_calls (world s') ! i =
           decode_window p (take (window_bytes E p n)
             (drop (i * (skipped_bytes p + window_bytes E p n) + skipped_bytes p)
                (rest (cin (world s0)))))"
    and "(i + 1) * (skipped_bytes p + window_bytes E p n) \<le> length (rest (cin (world s0)))"
    by (simp_all add: Qf_def K_def W_def bs_def)
qed

lemma shutdown_keeps:
  "full_calls (shutdown w) = full_calls w" "cin (shutdown w) = cin w"
  by (simp_all add: shutdown_def Let_def put_out_def)

lemma epilogue_keeps:
  "full_calls (snd (epilogue r)) = full_calls (world (snd r))"
  by (cases r) (simp add: epilogue_def shutdown_keeps split: option.splits)

lemma prologue_Inl:
  assumes "prologue E p w = Inl (oc, w')"
  shows "full_calls w' = full_calls w" and "cin w' = cin w"
  using assms open_output_keeps [of E p
      "put_out ''Whisper context initialized successfully.\<newline>''
         (put_out ''Initializing Whisper context...\<newline>'' w)"]
  by (auto simp add: prologue_def Let_def put_out_def put_err_def
      split: option.splits if_splits prod.splits)

lemma windows_of_run:
  assumes r: "run E argv0 p w fuel = Some (oc, w')"
    and g: "good (cin w)" and c: "full_calls w = []"
    and n: "n_samples_step (sample_rate E) (step_ms p) = Some (int n)"
    and i: "i < length (full_calls w')"
  shows "full_calls w' ! i =
           decode_window p (take (window_bytes E p n)
             (drop (i * (skipped_bytes p + window_bytes E p n) + skipped_bytes p) (rest (cin w))))"
    and "(i + 1) * (skipped_bytes p + window_bytes E p n) \<le> length (rest (cin w))"
proof -
  show "full_calls w' ! i =
           decode_window p (take (window_bytes E p n)
             (drop (i * (skipped_bytes p + window_bytes E p n) + skipped_bytes p) (rest (cin w))))
        " and "(i + 1) * (skipped_bytes p + window_bytes E p n) \<le> length (rest (cin w))"
  proof (atomize (full), cases "prologue E p w")
    case (Inl a)
    with r have "prologue E p w = Inl (oc, w')" by (simp add: run_def)
    from prologue_Inl(1) [OF this] c i show "full_calls w' ! i =
           decode_window p (take (window_bytes E p n)
             (drop (i * (skipped_bytes p + window_bytes E p n) + skipped_bytes p) (rest (cin w))))
        \<and> (i + 1) * (skipped_bytes p + window_bytes E p n) \<le> length (rest (cin w))"
      by simp
  next
    case (Inr s0)
    with r obtain x s' where ml: "main_loop E argv0 p fuel s0 = Some (x, s')"
      and e: "epilogue (x, s') = (oc, w')"
      by (auto simp add: run_def)
    from epilogue_keeps [of "(x, s')"] e have fc: "full_calls w' = full_calls (world s')" by simp
    from prologue_Inr [OF Inr] n have s0: "pcmf32 s0 = replicate n 0"
      "cin (world s0) = cin w" "full_calls (world s0) = full_calls w"
      by auto
    from windows_of_loop [OF ml, of n i] g c i s0 fc
    show "full_calls w' ! i =
           decode_window p (take (window_bytes E p n)
             (drop (i * (skipped_bytes p + window_bytes E p n) + skipped_bytes p) (rest (cin w))))
        \<and> (i + 1) * (skipped_bytes p + window_bytes E p n) \<le> length (rest (cin w))"
      by simp
  qed
qed

lemma main_Returned:
  assumes "main E argv0 args bs fuel = Some (oc, w')"
    and "whisper_params_parse (stof E) argv0 args (default_params (hardware_concurrency E))
           = Returned True p"
  shows "run E argv0 p (put_out ''Parsed parameters successfully.\<newline>''
           (put_out ''Initializing Whisper RT Service...\<newline>'' (init_world bs))) fuel
         = Some (oc, w')"
  using assms by (simp add: main_def)

lemma windows_of_main:
  assumes m: "main E argv0 args bs fuel = Some (oc, w')"
    and p: "whisper_params_parse (stof E) argv0 args (default_params (hardware_concurrency E))
           = Returned True p"
    and n: "n_samples_step (sample_rate E) (step_ms p) = Some (int n)"
    and i: "i < length (full_calls w')"
  shows "full_calls w' ! i =
           decode_window p (take (window_bytes E p n)
             (drop (i * (skipped_bytes p + window_bytes E p n) + skipped_bytes p) bs))"
    and "(i + 1) * (skipped_bytes p + window_bytes E p n) \<le> length bs"
  using windows_of_run [OF main_Returned [OF m p] _ _ n i]
  by (simp_all add: put_out_def init_world_def good_def)

lemma run_calls_size:
  assumes r: "run E argv0 p w fuel = Some (oc, w')" and c: "full_calls w = []"
    and i: "full_calls w' \<noteq> []"
  shows "\<exists>n. n_samples_step (sample_rate E) (step_ms p) = Some (int n)"
proof (cases "prologue E p w")
  case (Inl a)
  with r have "prologue E p w = Inl (oc, w')" by (simp add: run_def)
  from prologue_Inl(1) [OF this] c i show ?thesis by simp
next
  case (Inr s0)
  from prologue_Inr [OF this] show ?thesis by blast
qed

lemma length_decode_window:
  assumes "skipped_bytes p + window_bytes E p n \<le> length bs - off" 
  shows "length (decode_window p (take (window_bytes E p n) (drop (off + skipped_bytes p) bs)))
         = (if from_wav_file p then wav_buffer_len (sample_rate E) else n)"
  using assms
  by (auto simp add: decode_window_def window_bytes_def skipped_bytes_def
      length_f32s_of_bytes length_i16s_of_bytes)

lemma short_read_leaves:
  assumes g: "good (cin (world s))"
    and l: "length (rest (cin (world s))) < skipped_bytes p + window_bytes E p (length (pcmf32 s))"
  shows "fst (loop_body E argv0 p s) \<noteq> Next"
    and "full_calls (world (snd (loop_body E argv0 p s))) = full_calls (world s)"
proof -
  show "fst (loop_body E argv0 p s) \<noteq> Next"
    using loop_body_Next_raw [OF _ g, of p E argv0] loop_body_Next_wav [OF _ g, of p E argv0] l
    by (auto simp add: skipped_bytes_def window_bytes_def split: if_splits)
  then show "full_calls (world (snd (loop_body E argv0 p s))) = full_calls (world s)"
    by (rule loop_body_leave [OF g])
qed

subsection \<open>The end of the loop\<close>

text \<open>
  When an iteration takes at least one byte, the loop ends within as many iterations
  as the input has bytes, and one more. When an engine call fails, \<open>main\<close> returns 0.
\<close>

lemma main_loop_terminates:
  fixes s :: "'ctx state"
  assumes "good (cin (world s))" and "\<not> from_wav_file p \<longrightarrow> length (pcmf32 s) = n"
    and "0 < skipped_bytes p + window_bytes E p n"
    and "length (rest (cin (world s))) < fuel"
  shows "main_loop E argv0 p fuel s \<noteq> None"
  using assms(1,2,4)
proof (induction fuel arbitrary: s)
  case 0
  then show ?case by simp
next
  case (Suc k)
  show ?case
  proof (cases "is_running s")
    case False
    then show ?thesis by simp
  next
    case True
    obtain f t where lb: "loop_body E argv0 p s = (f, t)" by (cases "loop_body E argv0 p s")
    show ?thesis
    proof (cases f)
      case Next
      note nx = loop_body_Next [OF Suc.prems(1,2) lb [unfolded Next]]
      from nx(3) have "length (rest (cin (world t)))
          = length (rest (cin (world s))) - (skipped_bytes p + window_bytes E p n)"
        by simp
      with nx(1) assms(3) Suc.prems(3) have "length (rest (cin (world t))) < k" by arith
      from Suc.IH [OF nx(4,5) this] True lb Next show ?thesis by simp
    next
      case Break
      with True lb show ?thesis by simp
    next
      case (Throw e)
      with True lb show ?thesis by simp
    qed
  qed
qed

lemma engine_failure_returns_0:
  assumes "prologue E p w = Inr s0" and "state_at E argv0 p k s0 = Some s"
    and "loop_body E argv0 p s = (Next, t)" and "\<not> is_running t" and "k < fuel"
  shows "run E argv0 p w fuel = Some (Exit 0, shutdown (world t))"
proof -
  from assms(5) obtain j where fuel: "fuel = k + Suc j"
    by (metis add_Suc_right less_iff_Suc_add)
  from assms(2) have r: "is_running s" by (rule state_at_running)
  have "main_loop E argv0 p fuel s0 = main_loop E argv0 p (Suc j) s"
    unfolding fuel by (rule main_loop_state_at [OF assms(2)])
  also have "\<dots> = main_loop E argv0 p j t"
    using r assms(3) by simp
  also have "\<dots> = Some (None, t)"
    using assms(4) by (cases j) simp_all
  finally show ?thesis
    by (simp add: run_def assms(1) epilogue_def)
qed

subsection \<open>What one iteration prints\<close>

lemma cout_print_segments:
  "cout (print_segments p gs w) = cout w @ map (segment_text p) gs"
  unfolding print_segments_def
  by (induction gs arbitrary: w) (simp_all add: print_segment_def put_file_def put_out_def)

lemma after_read_success:
  assumes "\<not> eofbit (cin (world s))"
    and "fst (whisper_full E (ctx s) (full_params E p) (pcmf32 s)) = 0"
  shows "n_iter (snd (after_read E argv0 p s)) = n_iter s + 1"
    and "ctx (snd (after_read E argv0 p s))
           = snd (whisper_full E (ctx s) (full_params E p) (pcmf32 s))"
    and "cout (world (snd (after_read E argv0 p s))) =
           cout (world s)
           @ [''Processing audio data, iteration '' @ show_int (n_iter s + 1) @ ''...\<newline>'',
              ''Audio processed successfully.\<newline>'']
           @ map (segment_text p)
               (full_segments E (snd (whisper_full E (ctx s) (full_params E p) (pcmf32 s))))"
    and "cerr (world (snd (after_read E argv0 p s))) = cerr (world s)"
  using assms
  by (auto simp add: after_read_def Let_def say_def put_out_def cout_print_segments
      print_segments_keeps split: prod.splits)

lemma after_read_failure:
  assumes "\<not> eofbit (cin (world s))"
    and "fst (whisper_full E (ctx s) (full_params E p) (pcmf32 s)) \<noteq> 0"
  shows "n_iter (snd (after_read E argv0 p s)) = n_iter s"
    and "ctx (snd (after_read E argv0 p s))
           = snd (whisper_full E (ctx s) (full_params E p) (pcmf32 s))"
    and "cout (world (snd (after_read E argv0 p s))) =
           cout (world s)
           @ [''Processing audio data, iteration '' @ show_int (n_iter s + 1) @ ''...\<newline>'']"
    and "cerr (world (snd (after_read E argv0 p s))) =
           cerr (world s) @ [Str (argv0 @ '': failed to process audio\<newline>'')]"
  using assms
  by (auto simp add: after_read_def Let_def say_def put_out_def put_err_def split: prod.splits)

lemma loop_body_Next_after_read:
  assumes "loop_body E argv0 p s = (Next, s')"
  shows "\<exists>sr. after_read E argv0 p sr = (Next, s') \<and> \<not> eofbit (cin (world sr))
           \<and> cout (world sr) = cout (world s) @ [''Reading audio data from standard input...\<newline>'']
           \<and> cerr (world sr) = cerr (world s)
           \<and> n_iter sr = n_iter s \<and> ctx sr = ctx s \<and> is_running sr = is_running s
           \<and> full_calls (world sr) = full_calls (world s)"
proof (cases "from_wav_file p")
  case True
  let ?s1 = "say ''Reading audio data from standard input...\<newline>'' s"
  obtain r c where rw: "readWavStreamAsFloats (sample_rate E) (cin (world ?s1)) = (r, c)"
    by (cases "readWavStreamAsFloats (sample_rate E) (cin (world ?s1))")
  with assms True obtain v where v: "r = Inr v"
    by (cases r) (auto simp add: loop_body_def Let_def)
  let ?sr = "?s1\<lparr>world := (world ?s1)\<lparr>cin := c\<rparr>, pcmf32 := v\<rparr>"
  from assms True rw v have a: "after_read E argv0 p ?sr = (Next, s')"
    by (simp add: loop_body_def Let_def)
  then have "\<not> eofbit (cin (world ?sr))"
    using after_read_eof [of ?sr E argv0 p] by auto
  with a show ?thesis
    by (intro exI [of _ ?sr]) (simp add: say_def put_out_def)
next
  case False
  let ?sr = "read_raw (say ''Reading audio data from standard input...\<newline>'' s)"
  from assms False have e: "\<not> eofbit (cin (world ?sr))"
    by (auto simp add: loop_body_def Let_def split: if_splits)
  with assms False have a: "after_read E argv0 p ?sr = (Next, s')"
    by (simp add: loop_body_def Let_def)
  have "cout (world ?sr) = cout (world s) @ [''Reading audio data from standard input...\<newline>'']"
    "cerr (world ?sr) = cerr (world s)"
    by (simp_all add: read_raw_def say_def put_out_def split: prod.splits)
  with a e show ?thesis
    by (intro exI [of _ ?sr]) (simp add: read_raw_keeps say_keeps)
qed

lemma thresholds_unused:
  "full_params E (p\<lparr>vad_thold := x, freq_thold := y\<rparr>) = full_params E p"
  "print_segments (p\<lparr>vad_thold := x, freq_thold := y\<rparr>) = print_segments p"
  by (simp_all add: full_params_def print_segments_def print_segment_def segment_text_def
      fun_eq_iff)

lemma after_read_ignores_thresholds:
  "after_read E argv0 (p\<lparr>vad_thold := x, freq_thold := y\<rparr>) s = after_read E argv0 p s"
  by (simp add: after_read_def thresholds_unused Let_def split: prod.splits)

lemma loop_body_ignores_thresholds:
  "loop_body E argv0 (p\<lparr>vad_thold := x, freq_thold := y\<rparr>) s = loop_body E argv0 p s"
  by (simp add: loop_body_def after_read_ignores_thresholds Let_def
      split: prod.splits sum.splits)

subsection \<open>Unfolding the loop on a concrete input\<close>

lemma n_samples_step_4007: "n_samples_step 16000 4007 = Some 64111"
  by code_simp

lemma main_loop_Next:
  "is_running s \<Longrightarrow> fst (loop_body E argv0 p s) = Next \<Longrightarrow>
     main_loop E argv0 p (Suc k) s = main_loop E argv0 p k (snd (loop_body E argv0 p s))"
  by (cases "loop_body E argv0 p s") simp

lemma main_loop_Break:
  "is_running s \<Longrightarrow> fst (loop_body E argv0 p s) = Break \<Longrightarrow>
     main_loop E argv0 p (Suc k) s = Some (None, snd (loop_body E argv0 p s))"
  by (cases "loop_body E argv0 p s") simp

lemma main_loop_Throw:
  "is_running s \<Longrightarrow> fst (loop_body E argv0 p s) = Throw e \<Longrightarrow>
     main_loop E argv0 p (Suc k) s = Some (Some e, snd (loop_body E argv0 p s))"
  by (cases "loop_body E argv0 p s") simp

lemma demo_engine_succeeds: "fst (whisper_full (demo_env None b) c wp x) = 0"
  by (simp add: demo_env_def)


subsection \<open>Timestamps\<close>

text \<open>
  Claim C5. The claim has the last field of a timestamp in milliseconds,
  \<open>(t mod 100) * 10\<close>, so that tick 6134 is \<open>01:01.340\<close>. The function prints the
  hundredths \<open>t mod 100\<close> themselves in the three-digit field: tick 6134 is formatted as
  \<open>01:01.034\<close>. Tick 0 is formatted as \<open>00:00.000\<close>, as the claim says.
\<close>

theorem to_timestamp_6134:
  "to_timestamp 6134 = ''01:01.034'' \<and> to_timestamp 0 = ''00:00.000''"
  by code_simp

subsection \<open>The exits of \<open>main\<close> before the loop\<close>

text \<open>
  Claim C6. The claim has an invocation with an unrecognized flag report the error and
  exit with code 1. For the arguments \<open>--bogus\<close> the process writes the error line and
  the usage text to the standard error stream and ends with exit code 0, inside
  \<open>whisper_params_parse\<close>; nothing has been read from standard input and no engine call
  has been made.
\<close>

theorem unknown_argument_exits_0:
  "main E ''stream-rt'' [''--bogus''] bs fuel =
     Some (Exit 0,
       (put_out ''Initializing Whisper RT Service...\<newline>'' (init_world bs))
         \<lparr>cerr := [Str ''error: unknown argument: --bogus\<newline>'',
                   Usage ''stream-rt'' (default_params (hardware_concurrency E))]\<rparr>)"
  by (simp add: main_def parse_arg_def put_out_def init_world_def)

text \<open>
  Claim C7. In every run that gets as far as opening the output file (the arguments
  are parsed, the step size is an \<open>int\<close> that is not negative, the engine is
  initialised), if a file name is configured and the file cannot be opened, the process
  exits with code 3; standard input is as it was at the start and no engine call has
  been made.
\<close>

theorem sink_open_failure_exits_3:
  assumes "whisper_params_parse (stof E) argv0 args (default_params (hardware_concurrency E))
             = Returned True p"
    and "n_samples_step (sample_rate E) (step_ms p) = Some n" and "0 \<le> n"
    and "init_from_file E (model p) (use_gpu p) = Some c"
    and "fname_out p \<noteq> []" and "\<not> can_open E (fname_out p)"
  shows "\<exists>w. main E argv0 args bs fuel = Some (Exit 3, w)
           \<and> cin w = cin (init_world bs) \<and> rest (cin w) = bs \<and> full_calls w = []"
  using assms
  by (simp add: main_def run_def prologue_def open_output_def put_out_def put_err_def
      init_world_def Let_def)

theorem sink_open_failure_exits_3_witness:
  "whisper_params_parse (stof (demo_env None False)) ''stream-rt'' [''-f'', ''/out.txt'']
       (default_params (hardware_concurrency (demo_env None False)))
     = Returned True ((default_params 8)\<lparr>fname_out := ''/out.txt''\<rparr>)
   \<and> \<not> can_open (demo_env None False) ''/out.txt''
   \<and> (\<exists>w. main (demo_env None False) ''stream-rt'' [''-f'', ''/out.txt''] [1, 2, 3, 4] 1
            = Some (Exit 3, w)
          \<and> rest (cin w) = [1, 2, 3, 4] \<and> full_calls w = [])"
proof -
  let ?E = "demo_env None False"
  let ?p = "(default_params 8)\<lparr>fname_out := ''/out.txt''\<rparr>"
  have h1: "whisper_params_parse (stof ?E) ''stream-rt'' [''-f'', ''/out.txt'']
       (default_params (hardware_concurrency ?E)) = Returned True ?p"
    by (simp add: parse_arg_def string_option_def demo_env_def)
  have h2: "n_samples_step (sample_rate ?E) (step_ms ?p) = Some 48000"
    by (simp add: demo_env_def default_params_def n_samples_step_3000)
  have h3: "init_from_file ?E (model ?p) (use_gpu ?p) = Some 0"
    by (simp add: demo_env_def)
  have h4: "fname_out ?p \<noteq> []" by simp
  have h5: "\<not> can_open ?E (fname_out ?p)" by (simp add: demo_env_def)
  have h0: "(0::int) \<le> 48000" by simp
  from sink_open_failure_exits_3 [OF h1 h2 h0 h3 h4 h5, of "[1, 2, 3, 4]" 1]
  have "\<exists>w. main ?E ''stream-rt'' [''-f'', ''/out.txt''] [1, 2, 3, 4] 1 = Some (Exit 3, w)
           \<and> rest (cin w) = [1, 2, 3, 4] \<and> full_calls w = []"
    by blast
  with h1 h5 show ?thesis by simp
qed

subsection \<open>The retained context\<close>

text \<open>
  Claim C1, as stated, fails. With keep-context enabled (\<open>-kc\<close>), a step of 2 ms and
  \<open>keep_ms = 1\<close> the claim wants 16 retained samples when the second iteration begins;
  \<open>pcmf32_old\<close> is empty there.
\<close>

theorem retained_context_counterexample:
  "map_option pcmf32_old
     (state_at (demo_env None True) ''stream-rt'' kc_params 1
        (projr (prologue (demo_env None True) kc_params (init_world (replicate 256 0)))))
     = Some []
   \<and> \<not> no_context kc_params
   \<and> keep_ms kc_params * sample_rate (demo_env None True) div 1000 = 16"
  by code_simp

text \<open>
  Claim C1, amended. \<open>pcmf32_old\<close>, the retained context, is empty when any iteration
  begins, the first and the later ones, whether keep-context is enabled or not and
  whatever \<open>keep_ms\<close> is: the loop never assigns to it.
\<close>

theorem retained_context_always_empty:
  assumes "prologue E p w = Inr s0" and "state_at E argv0 p k s0 = Some s"
  shows "pcmf32_old s = []"
proof -
  from prologue_Inr [OF assms(1)] have "pcmf32_old s0 = []" by blast
  with assms(2) show ?thesis
  proof (rule state_at_rule)
    fix s t
    assume "pcmf32_old s = []" and "loop_body E argv0 p s = (Next, t)"
    with loop_body_old [of E argv0 p s] show "pcmf32_old t = []" by simp
  qed
qed

theorem retained_context_always_empty_witness:
  "\<exists>s0 s. prologue (demo_env None True) kc_params (init_world (replicate 256 0)) = Inr s0
      \<and> state_at (demo_env None True) ''stream-rt'' kc_params 1 s0 = Some s
      \<and> \<not> no_context kc_params
      \<and> pcmf32_old s = []"
proof -
  let ?E = "demo_env None True"
  let ?w = "init_world (replicate 256 0)"
  have a: "prologue ?E kc_params ?w = Inr (projr (prologue ?E kc_params ?w))"
    by (simp add: prologue_def kc_params_def demo_env_def default_params_def n_samples_step_small
        open_output_def Let_def)
  have "state_at ?E ''stream-rt'' kc_params 1 (projr (prologue ?E kc_params ?w)) \<noteq> None"
    by code_simp
  then obtain s where b: "state_at ?E ''stream-rt'' kc_params 1 (projr (prologue ?E kc_params ?w))
      = Some s"
    by blast
  have c: "\<not> no_context kc_params" by (simp add: kc_params_def)
  from retained_context_always_empty [OF a b] a b c show ?thesis by blast
qed


subsection \<open>The buffers passed to the engine\<close>

text \<open>
  Claim C2, as stated, fails. With \<open>--step 1 --length 2\<close> the window capacity of the
  claim, \<open>length_ms * sampleRate / 1000\<close>, is 32 samples; the run on 70 bytes of input
  passes one buffer to the engine, and it has 16 samples.
\<close>

theorem window_capacity_counterexample:
  "map_option (map length \<circ> full_calls \<circ> snd)
     (main (demo_env None True) ''stream-rt'' [''--step'', ''1'', ''--length'', ''2'']
        (replicate 70 0) 3)
     = Some [16]
   \<and> whisper_params_parse (stof (demo_env None True)) ''stream-rt''
        [''--step'', ''1'', ''--length'', ''2'']
        (default_params (hardware_concurrency (demo_env None True)))
     = Returned True step1_params
   \<and> length_ms step1_params * sample_rate (demo_env None True) div 1000 = 32"
  by code_simp


text \<open>
  Claim C2, amended. In every finished run, each buffer passed to the engine has
  exactly the size of the buffer of its mode: \<open>n_samples_step\<close> samples (the value of
  \<open>(1e-3 * step_ms) * WHISPER_SAMPLE_RATE\<close>) in raw mode, \<open>wav_buffer_len\<close> samples
  (10000 ms) in wav mode, and not \<open>length_ms * sampleRate / 1000\<close>. The buffer numbered
  \<open>i\<close> is the decoding of one whole block of input bytes that lies inside the input, so
  no partly read buffer is passed on. An iteration that finds fewer bytes than it
  discards and reads does not reach the loop condition (it leaves by \<open>break\<close> or by the
  exception of the wav reader) and makes no engine call.
\<close>

theorem every_window_is_a_whole_buffer:
  fixes E :: "'ctx env"
  assumes m: "main E argv0 args bs fuel = Some (oc, w')"
    and p: "whisper_params_parse (stof E) argv0 args (default_params (hardware_concurrency E))
           = Returned True p"
    and i: "i < length (full_calls w')"
  shows "(if from_wav_file p
          then length (full_calls w' ! i) = wav_buffer_len (sample_rate E)
          else n_samples_step (sample_rate E) (step_ms p) = Some (int (length (full_calls w' ! i))))
       \<and> full_calls w' ! i =
           decode_window p (take (window_bytes E p (length (full_calls w' ! i)))
             (drop (i * (skipped_bytes p + window_bytes E p (length (full_calls w' ! i)))
                    + skipped_bytes p) bs))
       \<and> (i + 1) * (skipped_bytes p + window_bytes E p (length (full_calls w' ! i))) \<le> length bs
       \<and> (\<forall>s :: 'ctx state.
            good (cin (world s))
            \<and> length (rest (cin (world s)))
                < skipped_bytes p + window_bytes E p (length (pcmf32 s))
            \<longrightarrow> fst (loop_body E argv0 p s) \<noteq> Next
              \<and> full_calls (world (snd (loop_body E argv0 p s))) = full_calls (world s))"
proof -
  let ?x = "full_calls w' ! i"
  note r = main_Returned [OF m p]
  from i have "full_calls w' \<noteq> []" by auto
  with run_calls_size [OF r] obtain n
    where n: "n_samples_step (sample_rate E) (step_ms p) = Some (int n)"
    by (auto simp add: put_out_def init_world_def)
  note w = windows_of_main [OF m p n i]
  let ?B = "skipped_bytes p + window_bytes E p n"
  from w(2) have "?B \<le> length bs - i * ?B" by simp
  from length_decode_window [OF this] w(1)
  have len: "length ?x = (if from_wav_file p then wav_buffer_len (sample_rate E) else n)"
    by simp
  then have wb: "window_bytes E p (length ?x) = window_bytes E p n"
    by (simp add: window_bytes_def)
  have "if from_wav_file p
          then length ?x = wav_buffer_len (sample_rate E)
          else n_samples_step (sample_rate E) (step_ms p) = Some (int (length ?x))"
    using len n by simp
  moreover have "?x = decode_window p (take (window_bytes E p (length ?x))
             (drop (i * (skipped_bytes p + window_bytes E p (length ?x)) + skipped_bytes p) bs))"
    unfolding wb by (rule w(1))
  moreover have "(i + 1) * (skipped_bytes p + window_bytes E p (length ?x)) \<le> length bs"
    unfolding wb by (rule w(2))
  moreover have "\<forall>s :: 'ctx state.
            good (cin (world s))
            \<and> length (rest (cin (world s)))
                < skipped_bytes p + window_bytes E p (length (pcmf32 s))
            \<longrightarrow> fst (loop_body E argv0 p s) \<noteq> Next
              \<and> full_calls (world (snd (loop_body E argv0 p s))) = full_calls (world s)"
    using short_read_leaves by blast
  ultimately show ?thesis by blast
qed

theorem every_window_is_a_whole_buffer_witness:
  "main (demo_env None True) ''stream-rt'' [''--step'', ''1'', ''--length'', ''2'']
        (replicate 70 0) 3 \<noteq> None
   \<and> 0 < length (full_calls (snd (the
        (main (demo_env None True) ''stream-rt'' [''--step'', ''1'', ''--length'', ''2'']
           (replicate 70 0) 3))))
   \<and> n_samples_step (sample_rate (demo_env None True)) (step_ms step1_params)
       = Some (int (length (full_calls (snd (the
           (main (demo_env None True) ''stream-rt'' [''--step'', ''1'', ''--length'', ''2'']
              (replicate 70 0) 3))) ! 0)))
   \<and> (0 + 1) * (skipped_bytes step1_params + window_bytes (demo_env None True) step1_params
         (length (full_calls (snd (the
           (main (demo_env None True) ''stream-rt'' [''--step'', ''1'', ''--length'', ''2'']
              (replicate 70 0) 3))) ! 0)))
       \<le> length (replicate 70 (0 :: byte))"
proof -
  let ?E = "demo_env None True"
  let ?M = "main ?E ''stream-rt'' [''--step'', ''1'', ''--length'', ''2''] (replicate 70 0) 3"
  have a: "?M \<noteq> None" by code_simp
  then have m: "?M = Some (fst (the ?M), snd (the ?M))" by auto
  have p: "whisper_params_parse (stof ?E) ''stream-rt'' [''--step'', ''1'', ''--length'', ''2'']
        (default_params (hardware_concurrency ?E)) = Returned True step1_params"
    by code_simp
  have i: "0 < length (full_calls (snd (the ?M)))" by code_simp
  have w: "\<not> from_wav_file step1_params" by (simp add: step1_params_def default_params_def)
  from every_window_is_a_whole_buffer [OF m p i] w a i show ?thesis by simp
qed


subsection \<open>Silent windows\<close>

text \<open>
  Claim C3, as stated, fails. With the default threshold \<open>0.6\<close> and an input of 16
  zero samples the engine is called on the buffer of zeros and the segment it returns
  is printed.
\<close>

theorem silent_window_counterexample:
  "map_option (full_calls \<circ> snd)
     (main (demo_env None True) ''stream-rt'' [''--step'', ''1''] (replicate 64 0) 3)
     = Some [replicate 16 0]
   \<and> map_option (cout \<circ> snd)
     (main (demo_env None True) ''stream-rt'' [''--step'', ''1''] (replicate 64 0) 3)
     = Some [''Initializing Whisper RT Service...\<newline>'',
         ''Parsed parameters successfully.\<newline>'',
         ''Initializing Whisper context...\<newline>'',
         ''Whisper context initialized successfully.\<newline>'',
         ''Starting main audio processing loop...\<newline>'',
         ''Reading audio data from standard input...\<newline>'',
         ''Processing audio data, iteration 1...\<newline>'',
         ''Audio processed successfully.\<newline>'',
         ''[00:00.000 --> 01:01.034]  hello\<newline>'',
         ''Reading audio data from standard input...\<newline>'',
         ''End of audio stream detected.\<newline>'',
         ''Freeing Whisper context.\<newline>'',
         ''Whisper RT Service terminated successfully.\<newline>'']
   \<and> 0 < vad_thold (default_params (hardware_concurrency (demo_env None True)))"
  by code_simp

text \<open>
  Claim C3, amended. For every buffer of zero samples and every positive threshold, an
  iteration that has read its buffer calls the engine on it, once; if the call succeeds
  the segments it returns are printed and the iteration counter advances, if it fails
  the failure is reported and the loop is stopped. The thresholds have no effect on the
  iteration: there is no activity gate.
\<close>

theorem all_zero_window_is_recognized:
  assumes lb: "loop_body E argv0 p s = (Next, s')"
    and z: "set (pcmf32 s') \<subseteq> {0}" and v: "0 < vad_thold p"
  shows "full_calls (world s') = full_calls (world s) @ [pcmf32 s']
       \<and> ctx s' = snd (whisper_full E (ctx s) (full_params E p) (pcmf32 s'))
       \<and> (if fst (whisper_full E (ctx s) (full_params E p) (pcmf32 s')) = 0
          then is_running s' = is_running s \<and> n_iter s' = n_iter s + 1
             \<and> cout (world s') =
                 cout (world s)
                 @ [''Reading audio data from standard input...\<newline>'',
                    ''Processing audio data, iteration '' @ show_int (n_iter s + 1) @ ''...\<newline>'',
                    ''Audio processed successfully.\<newline>'']
                 @ map (segment_text p) (full_segments E (ctx s'))
          else \<not> is_running s' \<and> n_iter s' = n_iter s
             \<and> cerr (world s') = cerr (world s) @ [Str (argv0 @ '': failed to process audio\<newline>'')])
       \<and> (\<forall>x y. loop_body E argv0 (p\<lparr>vad_thold := x, freq_thold := y\<rparr>) s = (Next, s'))"
proof -
  from loop_body_Next_after_read [OF lb] obtain sr
    where a: "after_read E argv0 p sr = (Next, s')" and e: "\<not> eofbit (cin (world sr))"
      and sr: "cout (world sr) = cout (world s) @ [''Reading audio data from standard input...\<newline>'']"
        "cerr (world sr) = cerr (world s)" "n_iter sr = n_iter s" "ctx sr = ctx s"
        "is_running sr = is_running s" "full_calls (world sr) = full_calls (world s)"
    by blast
  from a have s': "s' = snd (after_read E argv0 p sr)" by simp
  have w: "pcmf32 s' = pcmf32 sr" by (simp add: s' after_read_next(4) [OF e])
  have c: "full_calls (world s') = full_calls (world s) @ [pcmf32 s']"
    by (simp add: w) (simp add: s' after_read_next(3) [OF e] sr)
  show ?thesis
  proof (cases "fst (whisper_full E (ctx s) (full_params E p) (pcmf32 s')) = 0")
    case True
    then have t: "fst (whisper_full E (ctx sr) (full_params E p) (pcmf32 sr)) = 0"
      by (simp add: w sr)
    from after_read_success [OF e t, of argv0] after_read_next(6) [OF e, of E argv0 p] t True c
    show ?thesis
      by (simp add: s' [symmetric] sr w loop_body_ignores_thresholds lb)
  next
    case False
    then have t: "fst (whisper_full E (ctx sr) (full_params E p) (pcmf32 sr)) \<noteq> 0"
      by (simp add: w sr)
    from after_read_failure [OF e t, of argv0] after_read_next(6) [OF e, of E argv0 p] t False c
    show ?thesis
      by (simp add: s' [symmetric] sr w loop_body_ignores_thresholds lb)
  qed
qed

theorem all_zero_window_is_recognized_witness:
  "fst (loop_body (demo_env None True) ''stream-rt'' step1_params
          (projr (prologue (demo_env None True) step1_params (init_world (replicate 64 0)))))
     = Next
   \<and> set (pcmf32 (snd (loop_body (demo_env None True) ''stream-rt'' step1_params
          (projr (prologue (demo_env None True) step1_params (init_world (replicate 64 0)))))))
       \<subseteq> {0}
   \<and> 0 < vad_thold step1_params
   \<and> full_calls (world (snd (loop_body (demo_env None True) ''stream-rt'' step1_params
          (projr (prologue (demo_env None True) step1_params (init_world (replicate 64 0)))))))
       = [pcmf32 (snd (loop_body (demo_env None True) ''stream-rt'' step1_params
          (projr (prologue (demo_env None True) step1_params (init_world (replicate 64 0))))))]"
proof -
  let ?E = "demo_env None True"
  let ?s = "projr (prologue ?E step1_params (init_world (replicate 64 0)))"
  let ?L = "loop_body ?E ''stream-rt'' step1_params ?s"
  have f: "fst ?L = Next" by code_simp
  then have lb: "?L = (Next, snd ?L)" by (cases ?L) simp
  have z: "set (pcmf32 (snd ?L)) \<subseteq> {0}" by code_simp
  have v: "0 < vad_thold step1_params" by code_simp
  have c: "full_calls (world ?s) = []" by code_simp
  from all_zero_window_is_recognized [OF lb z v] c f z v show ?thesis by simp
qed

subsection \<open>A failing engine call\<close>

text \<open>
  Claim C4. The claim has a run whose engine call fails end with a non-zero exit code.
  In the run on five buffers of input whose third call (iteration 2) fails, the first
  two iterations print their segments, the failure is reported on the standard error
  stream, no further buffer is read, and \<open>main\<close> returns 0 after its usual
  closing messages.
\<close>

theorem engine_failure_exits_0:
  "map_option fst
     (main (demo_env (Some 2) True) ''stream-rt'' [''--step'', ''1''] (replicate 320 0) 10)
     = Some (Exit 0)
   \<and> map_option (length \<circ> full_calls \<circ> snd)
     (main (demo_env (Some 2) True) ''stream-rt'' [''--step'', ''1''] (replicate 320 0) 10)
     = Some 3
   \<and> map_option (cerr \<circ> snd)
     (main (demo_env (Some 2) True) ''stream-rt'' [''--step'', ''1''] (replicate 320 0) 10)
     = Some [Str ''stream-rt: failed to process audio\<newline>'']
   \<and> map_option (cout \<circ> snd)
     (main (demo_env (Some 2) True) ''stream-rt'' [''--step'', ''1''] (replicate 320 0) 10)
     = Some [''Initializing Whisper RT Service...\<newline>'',
         ''Parsed parameters successfully.\<newline>'',
         ''Initializing Whisper context...\<newline>'',
         ''Whisper context initialized successfully.\<newline>'',
         ''Starting main audio processing loop...\<newline>'',
         ''Reading audio data from standard input...\<newline>'',
         ''Processing audio data, iteration 1...\<newline>'',
         ''Audio processed successfully.\<newline>'',
         ''[00:00.000 --> 01:01.034]  hello\<newline>'',
         ''Reading audio data from standard input...\<newline>'',
         ''Processing audio data, iteration 2...\<newline>'',
         ''Audio processed successfully.\<newline>'',
         ''[00:00.000 --> 01:01.034]  hello\<newline>'',
         ''Reading audio data from standard input...\<newline>'',
         ''Processing audio data, iteration 3...\<newline>'',
         ''Freeing Whisper context.\<newline>'',
         ''Whisper RT Service terminated successfully.\<newline>'']"
  by code_simp


subsection \<open>The size of the buffer\<close>

text \<open>
  Claim C8. The claim has the raw-mode buffer hold \<open>step_ms * sampleRate / 1000\<close>
  samples. For \<open>--step 4007\<close> at 16000 Hz that is 64112 samples; the double product
  \<open>(1e-3 * 4007) * 16000\<close> is just below 64112 and the conversion to \<open>int\<close> cuts it to
  64111. The run on 256444 bytes (64111 floats) passes one buffer of 64111 samples to
  the engine and returns 0.
\<close>

theorem step_4007_buffer_is_one_sample_short:
  "\<exists>w'. main (demo_env None True) ''stream-rt'' [''--step'', ''4007''] (replicate 256444 0) 2
          = Some (Exit 0, w')
        \<and> map length (full_calls w') = [64111]
        \<and> whisper_params_parse (stof (demo_env None True)) ''stream-rt'' [''--step'', ''4007'']
             (default_params (hardware_concurrency (demo_env None True)))
           = Returned True step4007_params
        \<and> step_ms step4007_params * sample_rate (demo_env None True) div 1000 = 64112"
proof -
  let ?E = "demo_env None True"
  let ?p = step4007_params
  let ?bs = "replicate 256444 (0 :: byte)"
  let ?w = "put_out ''Parsed parameters successfully.\<newline>''
              (put_out ''Initializing Whisper RT Service...\<newline>'' (init_world ?bs))"
  have parse: "whisper_params_parse (stof ?E) ''stream-rt'' [''--step'', ''4007'']
      (default_params (hardware_concurrency ?E)) = Returned True ?p"
    by code_simp
  have nw: "\<not> from_wav_file ?p" by (simp add: step4007_params_def default_params_def)
  have n: "n_samples_step (sample_rate ?E) (step_ms ?p) = Some 64111"
    by (simp add: step4007_params_def default_params_def demo_env_def n_samples_step_4007)
  obtain s0 where pro: "prologue ?E ?p ?w = Inr s0"
    by (simp add: prologue_def n_samples_step_4007 demo_env_def open_output_def Let_def
        step4007_params_def default_params_def)
  from prologue_Inr [OF pro] n have s0: "pcmf32 s0 = replicate 64111 0" "is_running s0"
    "cin (world s0) = cin ?w" "full_calls (world s0) = []"
    by (auto simp add: put_out_def init_world_def)
  have c0: "good (cin (world s0))" "rest (cin (world s0)) = ?bs"
    by (simp_all add: s0 put_out_def init_world_def good_def)
  let ?L0 = "loop_body ?E ''stream-rt'' ?p s0"
  let ?s1 = "snd ?L0"
  have l0: "length (pcmf32 s0) * 4 \<le> length (rest (cin (world s0)))"
    by (simp add: s0(1) c0(2))
  note f0 = loop_body_raw_full [OF nw c0(1) l0, of ?E "''stream-rt''"]
  have r1: "is_running ?s1"
    using loop_body_raw_running [OF nw c0(1) l0, of ?E "''stream-rt''"] s0(2)
    by (simp add: demo_engine_succeeds)
  have rest1: "rest (cin (world ?s1)) = []"
    using f0(3) by (simp add: s0(1) c0(2))
  have calls1: "map length (full_calls (world ?s1)) = [64111]"
    using f0(2) by (simp add: s0(1,4) c0(2) length_f32s_of_bytes)
  let ?L1 = "loop_body ?E ''stream-rt'' ?p ?s1"
  have sh: "\<not> (good (cin (world ?s1))
      \<and> length (pcmf32 ?s1) * 4 \<le> length (rest (cin (world ?s1))))"
    using f0(5) by (simp add: rest1 s0(1))
  have fe: "failbit (cin (world ?s1)) \<longrightarrow> eofbit (cin (world ?s1))"
    using f0(4) by (simp add: good_def)
  note b1 = loop_body_raw_short [OF nw fe sh, of ?E "''stream-rt''"]
  have "main_loop ?E ''stream-rt'' ?p 2 s0 = main_loop ?E ''stream-rt'' ?p 1 ?s1"
    using main_loop_Next [OF s0(2) f0(1), of 1] by (simp add: numeral_2_eq_2)
  also have "\<dots> = Some (None, snd ?L1)"
    using main_loop_Break [OF r1 b1(1), of 0] by simp
  finally have ml: "main_loop ?E ''stream-rt'' ?p 2 s0 = Some (None, snd ?L1)" .
  have m: "main ?E ''stream-rt'' [''--step'', ''4007''] ?bs 2
      = Some (Exit 0, shutdown (world (snd ?L1)))"
    by (simp only: main_def parse Let_def) (simp add: run_def pro ml epilogue_def)
  have c: "map length (full_calls (shutdown (world (snd ?L1)))) = [64111]"
    by (simp add: shutdown_keeps b1(2) calls1)
  have e: "step_ms ?p * sample_rate ?E div 1000 = 64112"
    by (simp add: step4007_params_def default_params_def demo_env_def)
  show ?thesis
    by (rule exI [of _ "shutdown (world (snd ?L1))"]) (intro conjI m c parse e)
qed

subsection \<open>The wav reader\<close>

text \<open>
  Claim C9. In wav mode every call of \<open>readWavStreamAsFloats\<close> on a good stream takes
  44 bytes more than one buffer from the input, and in every finished run the buffer
  passed to the engine in iteration \<open>i\<close> is decoded from the bytes that follow the first
  \<open>i * (44 + buffer bytes) + 44\<close> bytes of the input: 44 bytes are discarded before each
  buffer, not only before the first.
\<close>

theorem wav_reader_skips_44_bytes_every_time:
  assumes m: "main E argv0 args bs fuel = Some (oc, w')"
    and p: "whisper_params_parse (stof E) argv0 args (default_params (hardware_concurrency E))
           = Returned True p"
    and wav: "from_wav_file p"
    and i: "i < length (full_calls w')"
  shows "full_calls w' ! i =
           map f32_of_i16 (i16s_of_bytes (take (wav_buffer_len (sample_rate E) * 2)
             (drop (i * (44 + wav_buffer_len (sample_rate E) * 2) + 44) bs)))
       \<and> (i + 1) * (44 + wav_buffer_len (sample_rate E) * 2) \<le> length bs
       \<and> (\<forall>c. good c \<longrightarrow>
            rest (snd (readWavStreamAsFloats (sample_rate E) c))
              = drop (44 + wav_buffer_len (sample_rate E) * 2) (rest c))"
proof -
  note r = main_Returned [OF m p]
  from i have "full_calls w' \<noteq> []" by auto
  with run_calls_size [OF r] obtain n
    where n: "n_samples_step (sample_rate E) (step_ms p) = Some (int n)"
    by (auto simp add: put_out_def init_world_def)
  note w = windows_of_main [OF m p n i]
  have "\<forall>c. good c \<longrightarrow>
            rest (snd (readWavStreamAsFloats (sample_rate E) c))
              = drop (44 + wav_buffer_len (sample_rate E) * 2) (rest c)"
    by (auto simp add: readWavStreamAsFloats_def Let_def cin_ignore_def cin_read_def good_def
        add.commute)
  with w wav show ?thesis
    by (simp add: decode_window_def window_bytes_def skipped_bytes_def)
qed

theorem wav_reader_skips_44_bytes_every_time_witness:
  "\<exists>oc w'. main (demo_env None True) ''stream-rt'' [''--step'', ''1'', ''--from-wav-file'']
              (replicate 640088 0) 3 = Some (oc, w')
        \<and> whisper_params_parse (stof (demo_env None True)) ''stream-rt''
             [''--step'', ''1'', ''--from-wav-file'']
             (default_params (hardware_concurrency (demo_env None True)))
           = Returned True wav_params
        \<and> from_wav_file wav_params
        \<and> 1 < length (full_calls w')
        \<and> full_calls w' ! 1 =
             map f32_of_i16 (i16s_of_bytes (take (wav_buffer_len (sample_rate (demo_env None True)) * 2)
               (drop (1 * (44 + wav_buffer_len (sample_rate (demo_env None True)) * 2) + 44)
                  (replicate 640088 0))))"
proof -
  let ?E = "demo_env None True"
  let ?p = wav_params
  let ?a = "''stream-rt''"
  let ?bs = "replicate 640088 (0 :: byte)"
  let ?w = "put_out ''Parsed parameters successfully.\<newline>''
              (put_out ''Initializing Whisper RT Service...\<newline>'' (init_world ?bs))"
  have parse: "whisper_params_parse (stof ?E) ?a [''--step'', ''1'', ''--from-wav-file'']
      (default_params (hardware_concurrency ?E)) = Returned True ?p"
    by code_simp
  have wav: "from_wav_file ?p" by (simp add: wav_params_def)
  have N: "wav_buffer_len (sample_rate ?E) = 160000"
    by (simp add: demo_env_def wav_buffer_len_16000)
  obtain s0 where pro: "prologue ?E ?p ?w = Inr s0"
    by (simp add: prologue_def n_samples_step_small demo_env_def open_output_def Let_def
        wav_params_def default_params_def)
  from prologue_Inr [OF pro] have s0: "is_running s0"
    "cin (world s0) = cin ?w" "full_calls (world s0) = []"
    by (auto simp add: put_out_def init_world_def)
  have g0: "good (cin (world s0))" and r0: "rest (cin (world s0)) = ?bs"
    by (simp_all add: s0(2) put_out_def init_world_def good_def)
  have pos: "0 < wav_buffer_len (sample_rate ?E)" by (simp add: N)
  let ?s1 = "snd (loop_body ?E ?a ?p s0)"
  have l0: "44 + wav_buffer_len (sample_rate ?E) * 2 \<le> length (rest (cin (world s0)))"
    by (simp add: N r0)
  note f0 = loop_body_wav_full [OF wav g0 l0 pos, of ?a]
  have run1: "is_running ?s1"
    using loop_body_wav_running [OF wav g0 l0 pos, of ?a] s0(1)
    by (simp add: demo_engine_succeeds)
  have r1: "rest (cin (world ?s1)) = replicate 320044 0"
    using f0(3) by (simp add: N r0)
  let ?s2 = "snd (loop_body ?E ?a ?p ?s1)"
  have l1: "44 + wav_buffer_len (sample_rate ?E) * 2 \<le> length (rest (cin (world ?s1)))"
    by (simp add: N r1)
  note f1 = loop_body_wav_full [OF wav f0(4) l1 pos, of ?a]
  have run2: "is_running ?s2"
    using loop_body_wav_running [OF wav f0(4) l1 pos, of ?a] run1
    by (simp add: demo_engine_succeeds)
  have r2: "rest (cin (world ?s2)) = []"
    using f1(3) by (simp add: N r1)
  have len2: "length (full_calls (world ?s2)) = 2"
    using f1(2) f0(2) by (simp add: s0(3))
  let ?s3 = "snd (loop_body ?E ?a ?p ?s2)"
  have z: "\<not> good (cin (world ?s2)) \<or> length (rest (cin (world ?s2))) \<le> 44
      \<or> wav_buffer_len (sample_rate ?E) = 0"
    by (simp add: r2)
  note t2 = loop_body_wav_zero [OF wav z, of ?a]
  have "main_loop ?E ?a ?p 3 s0 = main_loop ?E ?a ?p 2 ?s1"
    using main_loop_Next [OF s0(1) f0(1), of 2] by (simp add: numeral_3_eq_3 numeral_2_eq_2)
  also have "\<dots> = main_loop ?E ?a ?p 1 ?s2"
    using main_loop_Next [OF run1 f1(1), of 1] by (simp add: numeral_2_eq_2)
  also have "\<dots> = Some (Some (Runtime_error ''Error reading WAV data from standard input.''), ?s3)"
    using main_loop_Throw [OF run2 t2(1), of 0] by simp
  finally have ml: "main_loop ?E ?a ?p 3 s0
      = Some (Some (Runtime_error ''Error reading WAV data from standard input.''), ?s3)" .
  have m: "main ?E ?a [''--step'', ''1'', ''--from-wav-file''] ?bs 3
      = Some (Uncaught (Runtime_error ''Error reading WAV data from standard input.''), world ?s3)"
    by (simp only: main_def parse Let_def) (simp add: run_def pro ml epilogue_def)
  have i: "1 < length (full_calls (world ?s3))"
    by (simp add: t2(2) len2)
  note inst = wav_reader_skips_44_bytes_every_time [OF m parse wav i]
  show ?thesis
    apply (rule exI [of _ "Uncaught (Runtime_error ''Error reading WAV data from standard input.'')"])
    apply (rule exI [of _ "world ?s3"])
    apply (intro conjI m parse wav i)
    apply (rule inst [THEN conjunct1])
    done
qed

subsection \<open>The end of the input in wav mode\<close>

text \<open>
  Claim C10. In wav mode, when an iteration begins with at most 44 bytes left on standard
  input (so that nothing is read after the skip; the start of an empty input is the
  case \<open>k = 0\<close>), \<open>readWavStreamAsFloats\<close> throws, nothing catches the exception, and
  the process ends by it and not by \<open>return 0\<close>.
\<close>

theorem wav_zero_read_is_uncaught:
  assumes "from_wav_file p" and "prologue E p w = Inr s0"
    and "state_at E argv0 p k s0 = Some s"
    and "length (rest (cin (world s))) \<le> 44" and "k < fuel"
  shows "\<exists>w'. run E argv0 p w fuel
           = Some (Uncaught (Runtime_error ''Error reading WAV data from standard input.''), w')"
proof -
  from assms(5) obtain j where fuel: "fuel = k + Suc j"
    by (metis add_Suc_right less_iff_Suc_add)
  from assms(3) have r: "is_running s" by (rule state_at_running)
  obtain f t where lb: "loop_body E argv0 p s = (f, t)" by (cases "loop_body E argv0 p s")
  with loop_body_wav_zero(1) [OF assms(1), of s E argv0] assms(4)
  have f: "f = Throw (Runtime_error ''Error reading WAV data from standard input.'')" by simp
  have "main_loop E argv0 p fuel s0 = main_loop E argv0 p (Suc j) s"
    unfolding fuel by (rule main_loop_state_at [OF assms(3)])
  also have "\<dots> = Some (Some (Runtime_error ''Error reading WAV data from standard input.''), t)"
    using r lb f by simp
  finally show ?thesis
    by (simp add: run_def assms(2) epilogue_def)
qed

theorem wav_zero_read_is_uncaught_witness:
  "from_wav_file wav_params
   \<and> (\<exists>s0. prologue (demo_env None True) wav_params (init_world (replicate 44 0)) = Inr s0
         \<and> state_at (demo_env None True) ''stream-rt'' wav_params 0 s0 = Some s0
         \<and> length (rest (cin (world s0))) \<le> 44)
   \<and> (\<exists>w'. run (demo_env None True) ''stream-rt'' wav_params (init_world (replicate 44 0)) 1
           = Some (Uncaught (Runtime_error ''Error reading WAV data from standard input.''), w'))"
proof -
  let ?E = "demo_env None True"
  let ?w = "init_world (replicate 44 0)"
  let ?s0 = "projr (prologue ?E wav_params ?w)"
  have w: "from_wav_file wav_params" by (simp add: wav_params_def)
  have a: "prologue ?E wav_params ?w = Inr ?s0"
    by (simp add: prologue_def wav_params_def demo_env_def default_params_def
        n_samples_step_small open_output_def Let_def)
  have b: "state_at ?E ''stream-rt'' wav_params 0 ?s0 = Some ?s0"
    by (simp add: prologue_def wav_params_def demo_env_def default_params_def
        n_samples_step_small open_output_def Let_def init_state_def)
  have c: "length (rest (cin (world ?s0))) \<le> 44"
    by (simp add: prologue_def wav_params_def demo_env_def default_params_def
        n_samples_step_small open_output_def Let_def init_state_def put_out_def init_world_def)
  have d: "(0::nat) < 1" by simp
  from wav_zero_read_is_uncaught [OF w a b c d] w a b c show ?thesis by blast
qed

end
